theory Spec2Isabelle
  imports
    Main
    "HOL-Library.AList"
    "HOL-Library.Char_ord"
    "HOL-Library.List_Lexorder"
    "HOL-Library.Sublist"
begin

section \<open>Python values used by the topology builder\<close>

text \<open>
  The builder of \<^verbatim>\<open>src/models/heatpump.py\<close> names every component and every
  connection with an f-string that formats cycle indices in decimal.  \<open>str_int\<close> is
  Python's \<^verbatim>\<open>str\<close> on an integer; \<open>last_token\<close> is \<^verbatim>\<open>s.split(' ')[-1]\<close>;
  Python's substring test \<^verbatim>\<open>p in s\<close> is \<open>sublist p s\<close>, and the order that
  \<^verbatim>\<open>list.sort\<close> uses on strings is the lexicographic order on character codes.
\<close>

definition digit_char :: "nat \<Rightarrow> char" where
  "digit_char d = ''0123456789'' ! d"

function str_nat :: "nat \<Rightarrow> string" where
  "str_nat n = (if n < 10 then [digit_char n] else str_nat (n div 10) @ [digit_char (n mod 10)])"
  by pat_completeness auto
termination
  by (relation "measure id") auto

declare str_nat.simps [simp del]

definition str_int :: "int \<Rightarrow> string" where
  "str_int i = (if i < 0 then CHR ''-'' # str_nat (nat (- i)) else str_nat (nat i))"

definition last_token :: "string \<Rightarrow> string" where
  "last_token s = rev (takeWhile (\<lambda>ch. ch \<noteq> CHR '' '') (rev s))"

text \<open>Python dictionaries keep insertion order; \<^verbatim>\<open>d[k] = v\<close> replaces the value of an
  existing key in place and appends a new key at the end, which is \<open>AList.update\<close>.\<close>

definition assign :: "('k \<times> 'v) list \<Rightarrow> 'k \<times> 'v \<Rightarrow> ('k \<times> 'v) list" where
  "assign d kv = AList.update (fst kv) (snd kv) d"

definition keys :: "('k \<times> 'v) list \<Rightarrow> 'k list" where
  "keys d = map fst d"

section \<open>Data model\<close>

datatype tespy_class =
  CycleCloser | Source | Sink | Pump | HeatExchanger | Condenser
  | HeatExchangerSimple | Compressor | Valve

text \<open>A component object: its TESPy class and the label handed to its constructor.\<close>

record component =
  comp_class :: tespy_class
  label :: string

text \<open>A connection object holds its two endpoint component objects.\<close>

record connection =
  source :: component
  source_id :: string
  target :: component
  target_id :: string
  conn_label :: string

text \<open>A value of \<^verbatim>\<open>int_heatex\<close>: a single integer or a list of integers.\<close>

datatype int_heatex_entry = Single int | Multi "int list"

record intercooler_entry =
  amount :: int
  ic_type :: string

text \<open>The fields of a \<^verbatim>\<open>Heatpump\<close> object that the builder reads and writes.  The two
  configuration dictionaries are only ever looked up by key (\<open>map_of\<close>).\<close>

record heatpump =
  nr_cycles :: int
  int_heatex :: "(int \<times> int_heatex_entry) list"
  intercooler :: "(int \<times> intercooler_entry) list"
  components :: "(string \<times> component) list"
  connections :: "(string \<times> connection) list"

datatype error = KeyError string

section \<open>\<^verbatim>\<open>generate_components\<close>\<close>

definition new_component :: "tespy_class \<Rightarrow> string \<Rightarrow> string \<times> component" where
  "new_component cls l = (l, \<lparr>comp_class = cls, label = l\<rparr>)"

definition skeleton_components :: "(string \<times> component) list" where
  "skeleton_components =
    [new_component Source ''Heat Source Feed Flow'',
     new_component Sink ''Heat Source Back Flow'',
     new_component Pump ''Heat Source Recirculation Pump'',
     new_component HeatExchanger ''Evaporator 1'',
     new_component CycleCloser ''Consumer Cycle Closer'',
     new_component Pump ''Consumer Recirculation Pump'',
     new_component HeatExchangerSimple ''Consumer'']"

text \<open>One pass of the loop over \<^verbatim>\<open>range(1, nr_intercooler+2)\<close>: the intercooler of
  stage \<open>i\<close>, if there is one, then the compressor, stored under a key with a hyphen and
  constructed with a label with an underscore.\<close>

definition intercooler_stage :: "int \<Rightarrow> int \<Rightarrow> string \<Rightarrow> int \<Rightarrow> (string \<times> component) list" where
  "intercooler_stage cycle nr_intercooler ty i =
     (if i < nr_intercooler + 1 then
        (if ty = ''HeatExchanger'' then
           [new_component HeatExchanger (''Intercooler '' @ str_int cycle @ ''-'' @ str_int i)]
         else if ty = ''HeatExchangerSimple'' then
           [new_component HeatExchangerSimple (''Intercooler '' @ str_int cycle @ ''-'' @ str_int i)]
         else [])
      else [])
     @ [(''Compressor '' @ str_int cycle @ ''-'' @ str_int i,
         \<lparr>comp_class = Compressor, label = ''Compressor '' @ str_int cycle @ ''_'' @ str_int i\<rparr>)]"

text \<open>The dictionary assignments of one pass of the loop over the cycles, in program
  order.\<close>

definition cycle_components :: "heatpump \<Rightarrow> int \<Rightarrow> (string \<times> component) list" where
  "cycle_components hp cycle =
     [new_component CycleCloser (''Cycle Closer '' @ str_int cycle),
      new_component Valve (''Valve '' @ str_int cycle)]
     @ (if cycle \<noteq> 1 then
          [new_component HeatExchanger
             (''Heat Exchanger '' @ str_int (cycle - 1) @ ''_'' @ str_int cycle)]
        else [])
     @ (if cycle = nr_cycles hp then
          [new_component Condenser (''Condenser '' @ str_int cycle)]
        else [])
     @ (case map_of (intercooler hp) cycle of
          Some e \<Rightarrow> concat (map (intercooler_stage cycle (amount e) (ic_type e)) [1..amount e + 1])
        | None \<Rightarrow> [new_component Compressor (''Compressor '' @ str_int cycle)])
     @ (case map_of (int_heatex hp) cycle of
          Some (Multi ts) \<Rightarrow>
            map (\<lambda>target_cycle. new_component HeatExchanger
                   (''Internal Heat Exchanger '' @ str_int cycle @ ''_'' @ str_int target_cycle)) ts
        | Some (Single t) \<Rightarrow>
            [new_component HeatExchanger
               (''Internal Heat Exchanger '' @ str_int cycle @ ''_'' @ str_int t)]
        | None \<Rightarrow> [])"

definition component_assignments :: "heatpump \<Rightarrow> (string \<times> component) list" where
  "component_assignments hp =
     skeleton_components @ concat (map (cycle_components hp) [1..nr_cycles hp])"

definition generate_components :: "heatpump \<Rightarrow> heatpump" where
  "generate_components hp =
     hp\<lparr>components := foldl assign (components hp) (component_assignments hp)\<rparr>"

section \<open>\<^verbatim>\<open>set_conn\<close>\<close>

text \<open>\<^verbatim>\<open>self.components[comp_out]\<close> is evaluated first, then
  \<^verbatim>\<open>self.components[comp_in]\<close>; a missing key raises \<^verbatim>\<open>KeyError\<close>.  The new
  connection object is stored by dictionary assignment.  The calls into the TESPy
  network object are outside the repository and are not part of the model.\<close>

definition set_conn ::
  "string \<Rightarrow> string \<Rightarrow> string \<Rightarrow> string \<Rightarrow> string \<Rightarrow> heatpump \<Rightarrow> error + heatpump" where
  "set_conn lbl comp_out outlet comp_in inlet hp =
     (case map_of (components hp) comp_out of
        None \<Rightarrow> Inl (KeyError comp_out)
      | Some co \<Rightarrow>
          (case map_of (components hp) comp_in of
             None \<Rightarrow> Inl (KeyError comp_in)
           | Some ci \<Rightarrow>
               Inr (hp\<lparr>connections :=
                      assign (connections hp)
                        (lbl, \<lparr>source = co, source_id = outlet, target = ci,
                               target_id = inlet, conn_label = lbl\<rparr>)\<rparr>)))"

text \<open>The arguments of one \<^verbatim>\<open>set_conn\<close> call:
  label, \<^verbatim>\<open>comp_out\<close>, \<^verbatim>\<open>outlet\<close>, \<^verbatim>\<open>comp_in\<close>, \<^verbatim>\<open>inlet\<close>.\<close>

type_synonym conn_args = "string \<times> string \<times> string \<times> string \<times> string"

text \<open>A sequence of \<^verbatim>\<open>set_conn\<close> calls; the first exception ends it.\<close>

fun set_conns :: "conn_args list \<Rightarrow> heatpump \<Rightarrow> error + heatpump" where
  "set_conns [] hp = Inr hp"
| "set_conns ((lbl, comp_out, outlet, comp_in, inlet) # cs) hp =
     (case set_conn lbl comp_out outlet comp_in inlet hp of
        Inl e \<Rightarrow> Inl e
      | Inr hp' \<Rightarrow> set_conns cs hp')"

section \<open>\<^verbatim>\<open>generate_topology\<close>\<close>

text \<open>
  The arguments of every \<^verbatim>\<open>set_conn\<close> call that \<^verbatim>\<open>generate_topology\<close> makes depend
  on the configuration and on the keys of the component table only, and \<^verbatim>\<open>set_conn\<close>
  never changes the component table.  The model therefore lists the calls in program
  order (\<open>topology_conns\<close>) and runs them with \<open>set_conns\<close>.
\<close>

definition skeleton_conns :: "heatpump \<Rightarrow> conn_args list" where
  "skeleton_conns hp =
    [(''valve1_to_evaporator1'', ''Valve 1'', ''out1'', ''Evaporator 1'', ''in2''),
     (''heatsource_ff_to_heatsource_pump'',
        ''Heat Source Feed Flow'', ''out1'', ''Heat Source Recirculation Pump'', ''in1''),
     (''heatsource_pump_to_evaporator1'',
        ''Heat Source Recirculation Pump'', ''out1'', ''Evaporator 1'', ''in1''),
     (''evaporator1_to_heatsource_bf'',
        ''Evaporator 1'', ''out1'', ''Heat Source Back Flow'', ''in1''),
     (''heatsink_cc_to_heatsink_pump'',
        ''Consumer Cycle Closer'', ''out1'', ''Consumer Recirculation Pump'', ''in1''),
     (''heatsink_pump_to_cond'' @ str_int (nr_cycles hp),
        ''Consumer Recirculation Pump'', ''out1'',
        ''Condenser '' @ str_int (nr_cycles hp), ''in2''),
     (''cond'' @ str_int (nr_cycles hp) @ ''_to_consumer'',
        ''Condenser '' @ str_int (nr_cycles hp), ''out2'', ''Consumer'', ''in1''),
     (''consumer_to_heatsink_cc'', ''Consumer'', ''out1'', ''Consumer Cycle Closer'', ''in1'')]"

text \<open>The loop that collects \<^verbatim>\<open>cycle_int_heatex\<close>: the indices \<open>i\<close> of
  \<^verbatim>\<open>range(1, nr_cycles+1)\<close> whose entry is the cycle itself or a list that holds it.\<close>

fun collect_int_heatex :: "heatpump \<Rightarrow> int \<Rightarrow> int list \<Rightarrow> int list \<Rightarrow> int list" where
  "collect_int_heatex hp cycle [] acc = acc"
| "collect_int_heatex hp cycle (i # is) acc =
     collect_int_heatex hp cycle is
       (case map_of (int_heatex hp) i of
          None \<Rightarrow> acc
        | Some (Single t) \<Rightarrow> (if t = cycle then acc @ [i] else acc)
        | Some (Multi ts) \<Rightarrow> (if cycle \<in> set ts then acc @ [i] else acc))"

text \<open>\<^verbatim>\<open>last_int_heatex\<close> starts as the empty string and then holds an integer:
  \<open>None\<close> is the empty string, and \<^verbatim>\<open>not last_int_heatex\<close> is \<open>falsy\<close>.\<close>

definition falsy :: "int option \<Rightarrow> bool" where
  "falsy last_int_heatex = (case last_int_heatex of None \<Rightarrow> True | Some i \<Rightarrow> i = 0)"

definition last_str :: "int option \<Rightarrow> string" where
  "last_str last_int_heatex = (case last_int_heatex of None \<Rightarrow> [] | Some i \<Rightarrow> str_int i)"

text \<open>The loop over \<^verbatim>\<open>cycle_int_heatex\<close> (cold side); it returns the calls and the final
  value of \<^verbatim>\<open>last_int_heatex\<close>.\<close>

fun cold_chain :: "int \<Rightarrow> int option \<Rightarrow> int list \<Rightarrow> conn_args list \<times> int option" where
  "cold_chain cycle last_int_heatex [] = ([], last_int_heatex)"
| "cold_chain cycle last_int_heatex (c_int_heatex # rest) =
     (let call =
        (if falsy last_int_heatex then
           (if cycle = 1 then
              (''evaporator'' @ str_int cycle @ ''_to_int_heatex'' @ str_int c_int_heatex
                 @ ''_'' @ str_int cycle,
               ''Evaporator 1'', ''out2'',
               ''Internal Heat Exchanger '' @ str_int c_int_heatex @ ''_'' @ str_int cycle,
               ''in2'')
            else
              (''heatex'' @ str_int (cycle - 1) @ ''_'' @ str_int cycle @ ''_to_int_heatex''
                 @ str_int c_int_heatex @ ''_'' @ str_int cycle,
               ''Heat Exchanger '' @ str_int (cycle - 1) @ ''_'' @ str_int cycle, ''out2'',
               ''Internal Heat Exchanger '' @ str_int c_int_heatex @ ''_'' @ str_int cycle,
               ''in2''))
         else
           (''int_heatex'' @ last_str last_int_heatex @ ''_'' @ str_int cycle @ ''_to_int_heatex''
              @ str_int c_int_heatex @ ''_'' @ str_int cycle,
            ''Internal Heat Exchanger '' @ last_str last_int_heatex @ ''_'' @ str_int cycle, ''out2'',
            ''Internal Heat Exchanger '' @ str_int c_int_heatex @ ''_'' @ str_int cycle,
            ''in2''));
        (calls, last_int_heatex') = cold_chain cycle (Some c_int_heatex) rest
      in (call # calls, last_int_heatex'))"

text \<open>The compression stage: the branch with intercoolers and the branch without.\<close>

definition compression_conns :: "heatpump \<Rightarrow> int \<Rightarrow> int option \<Rightarrow> conn_args list" where
  "compression_conns hp cycle last_int_heatex =
     (case map_of (intercooler hp) cycle of
        Some e \<Rightarrow>
          [if falsy last_int_heatex then
             (if cycle = 1 then
                (''evaporator1_to_comp'' @ str_int cycle @ ''-1'',
                 ''Evaporator 1'', ''out2'', ''Compressor '' @ str_int cycle @ ''-1'', ''in1'')
              else
                (''heatex'' @ str_int (cycle - 1) @ ''_'' @ str_int cycle @ ''_to_comp''
                   @ str_int cycle,
                 ''Heat Exchanger '' @ str_int (cycle - 1) @ ''_'' @ str_int cycle, ''out2'',
                 ''Compressor '' @ str_int cycle @ ''-1'', ''in1''))
           else
             (''int_heatex'' @ last_str last_int_heatex @ ''_'' @ str_int cycle @ ''_to_comp''
                @ str_int cycle,
              ''Internal Heat Exchanger '' @ last_str last_int_heatex @ ''_'' @ str_int cycle, ''out2'',
              ''Compressor '' @ str_int cycle @ ''-1'', ''in1'')]
          @ concat (map (\<lambda>i.
              [(''comp'' @ str_int cycle @ ''-'' @ str_int i @ ''_to_intercooler''
                  @ str_int cycle @ ''-'' @ str_int i,
                ''Compressor '' @ str_int cycle @ ''-'' @ str_int i, ''out1'',
                ''Intercooler '' @ str_int cycle @ ''-'' @ str_int i, ''in1''),
               (''intercooler'' @ str_int cycle @ ''-'' @ str_int i @ ''_to_comp''
                  @ str_int cycle @ ''-'' @ str_int (i + 1),
                ''Intercooler '' @ str_int cycle @ ''-'' @ str_int i, ''out1'',
                ''Compressor '' @ str_int cycle @ ''-'' @ str_int (i + 1), ''in1'')])
              [1..amount e])
          @ [if cycle = nr_cycles hp then
               (''comp'' @ str_int cycle @ ''-'' @ str_int (amount e + 1) @ ''_to_cond''
                  @ str_int cycle,
                ''Compressor '' @ str_int cycle @ ''-'' @ str_int (amount e + 1), ''out1'',
                ''Condenser '' @ str_int cycle, ''in1'')
             else
               (''comp'' @ str_int cycle @ ''-'' @ str_int (amount e + 1) @ ''_to_heatex''
                  @ str_int cycle @ ''_'' @ str_int (cycle + 1),
                ''Compressor '' @ str_int cycle @ ''-'' @ str_int (amount e + 1), ''out1'',
                ''Heat Exchanger '' @ str_int cycle @ ''_'' @ str_int (cycle + 1), ''in1'')]
      | None \<Rightarrow>
          [if falsy last_int_heatex then
             (if cycle = 1 then
                (''evaporator1_to_comp'' @ str_int cycle,
                 ''Evaporator 1'', ''out2'', ''Compressor '' @ str_int cycle, ''in1'')
              else
                (''heatex'' @ str_int (cycle - 1) @ ''_'' @ str_int cycle @ ''_to_comp''
                   @ str_int cycle,
                 ''Heat Exchanger '' @ str_int (cycle - 1) @ ''_'' @ str_int cycle, ''out2'',
                 ''Compressor '' @ str_int cycle, ''in1''))
           else
             (''int_heatex'' @ last_str last_int_heatex @ ''_'' @ str_int cycle @ ''_to_comp''
                @ str_int cycle,
              ''Internal Heat Exchanger '' @ last_str last_int_heatex @ ''_'' @ str_int cycle, ''out2'',
              ''Compressor '' @ str_int cycle, ''in1''),
           if cycle = nr_cycles hp then
             (''comp'' @ str_int cycle @ ''_to_cond'' @ str_int cycle,
              ''Compressor '' @ str_int cycle, ''out1'', ''Condenser '' @ str_int cycle, ''in1'')
           else
             (''comp'' @ str_int cycle @ ''_to_heatex'' @ str_int cycle @ ''_''
                @ str_int (cycle + 1),
              ''Compressor '' @ str_int cycle, ''out1'',
              ''Heat Exchanger '' @ str_int cycle @ ''_'' @ str_int (cycle + 1), ''in1'')])"

text \<open>\<^verbatim>\<open>int_heatexs\<close>: the keys of the component table that contain
  \<^verbatim>\<open>f'Internal Heat Exchanger {cycle}'\<close> as a substring, sorted as strings in descending
  order.\<close>

definition int_heatexs :: "heatpump \<Rightarrow> int \<Rightarrow> string list" where
  "int_heatexs hp cycle =
     rev (sort (filter (\<lambda>comp. sublist (''Internal Heat Exchanger '' @ str_int cycle) comp)
                  (keys (components hp))))"

text \<open>The loop over \<^verbatim>\<open>int_heatexs\<close> (hot side); here \<^verbatim>\<open>last_int_heatex\<close> is a string
  throughout.\<close>

fun hot_chain :: "heatpump \<Rightarrow> int \<Rightarrow> string \<Rightarrow> string list \<Rightarrow> conn_args list \<times> string" where
  "hot_chain hp cycle last_int_heatex [] = ([], last_int_heatex)"
| "hot_chain hp cycle last_int_heatex (ihx # rest) =
     (let int_heatex_idx = last_token ihx;
          call =
            (if last_int_heatex = [] then
               (if cycle = nr_cycles hp then
                  (''cond'' @ str_int cycle @ ''_to_int_heatex'' @ int_heatex_idx,
                   ''Condenser '' @ str_int cycle, ''out1'', ihx, ''in1'')
                else
                  (''heatex'' @ str_int cycle @ ''_'' @ str_int (cycle + 1)
                     @ ''_to_int_heatex'' @ int_heatex_idx,
                   ''Heat Exchanger '' @ str_int cycle @ ''_'' @ str_int (cycle + 1), ''out1'',
                   ihx, ''in1''))
             else
               (''int_heatex'' @ last_token last_int_heatex @ ''_to_int_heatex'' @ int_heatex_idx,
                last_int_heatex, ''out1'', ihx, ''in1''));
          (calls, last_int_heatex') = hot_chain hp cycle ihx rest
      in (call # calls, last_int_heatex'))"

definition hot_return_conns :: "heatpump \<Rightarrow> int \<Rightarrow> conn_args list" where
  "hot_return_conns hp cycle =
     (let (calls, last_int_heatex) = hot_chain hp cycle [] (int_heatexs hp cycle)
      in calls @
         [if last_int_heatex = [] then
            (if cycle = nr_cycles hp then
               (''cond'' @ str_int cycle @ ''_to_cc'' @ str_int cycle,
                ''Condenser '' @ str_int cycle, ''out1'',
                ''Cycle Closer '' @ str_int cycle, ''in1'')
             else
               (''heatex'' @ str_int cycle @ ''_'' @ str_int (cycle + 1) @ ''_to_cc''
                  @ str_int cycle,
                ''Heat Exchanger '' @ str_int cycle @ ''_'' @ str_int (cycle + 1), ''out1'',
                ''Cycle Closer '' @ str_int cycle, ''in1''))
          else
            (''int_heatex'' @ last_token last_int_heatex @ ''_to_cc'' @ str_int cycle,
             last_int_heatex, ''out1'', ''Cycle Closer '' @ str_int cycle, ''in1'')])"

text \<open>One pass of the loop over the cycles.\<close>

definition cycle_conns :: "heatpump \<Rightarrow> int \<Rightarrow> conn_args list" where
  "cycle_conns hp cycle =
     (let cycle_int_heatex = collect_int_heatex hp cycle [1..nr_cycles hp] [];
          (cold, last_int_heatex) = cold_chain cycle None cycle_int_heatex
      in [(''cc'' @ str_int cycle @ ''_to_valve'' @ str_int cycle,
           ''Cycle Closer '' @ str_int cycle, ''out1'', ''Valve '' @ str_int cycle, ''in1'')]
         @ (if cycle \<noteq> 1 then
              [(''valve'' @ str_int cycle @ ''_to_heat_ex'' @ str_int (cycle - 1) @ ''_''
                  @ str_int cycle,
                ''Valve '' @ str_int cycle, ''out1'',
                ''Heat Exchanger '' @ str_int (cycle - 1) @ ''_'' @ str_int cycle, ''in2'')]
            else [])
         @ cold
         @ compression_conns hp cycle last_int_heatex
         @ hot_return_conns hp cycle)"

definition topology_conns :: "heatpump \<Rightarrow> conn_args list" where
  "topology_conns hp = skeleton_conns hp @ concat (map (cycle_conns hp) [1..nr_cycles hp])"

definition generate_topology :: "heatpump \<Rightarrow> error + heatpump" where
  "generate_topology hp = set_conns (topology_conns hp) hp"

section \<open>The constructor\<close>

text \<open>\<^verbatim>\<open>__init__\<close>: store the configuration, fill the component table from an empty
  dictionary, then fill the connection table from an empty dictionary.  An exception
  in \<^verbatim>\<open>generate_topology\<close> leaves the constructor, and no object is returned.\<close>

definition Heatpump_init ::
  "int \<Rightarrow> (int \<times> int_heatex_entry) list \<Rightarrow> (int \<times> intercooler_entry) list \<Rightarrow>
     error + heatpump" where
  "Heatpump_init nr ihx ic =
     generate_topology
       ((generate_components
           \<lparr>nr_cycles = nr, int_heatex = ihx, intercooler = ic,
            components = [], connections = []\<rparr>)\<lparr>connections := []\<rparr>)"

section \<open>\<^verbatim>\<open>delete_component\<close>\<close>

text \<open>The loop over \<^verbatim>\<open>self.connections.items()\<close> deletes from the copy the label of
  every connection whose source or target object carries the given label.  The printed
  lines are returned with the new state.\<close>

fun delete_conns ::
  "string \<Rightarrow> (string \<times> connection) list \<Rightarrow> (string \<times> connection) list \<Rightarrow>
     string list \<times> (string \<times> connection) list" where
  "delete_conns component [] connections_copy = ([], connections_copy)"
| "delete_conns component ((lbl, conn) # rest) connections_copy =
     (let is_source = (component = label (source conn));
          is_target = (component = label (target conn))
      in if is_source \<or> is_target then
           (let (out, copy') = delete_conns component rest (AList.delete lbl connections_copy)
            in ((''Connection '' @ lbl @ '' succesfully deleted from Heatpump.'') # out, copy'))
         else delete_conns component rest connections_copy)"

definition delete_component :: "string \<Rightarrow> heatpump \<Rightarrow> string list \<times> heatpump" where
  "delete_component component hp =
     (if component \<notin> set (keys (components hp)) then
        ([''No component with label '' @ component @ '' found.''], hp)
      else
        (let (out, copy') = delete_conns component (connections hp) (connections hp)
         in ((''Component '' @ component @ '' succesfully deleted from Heatpump.'') # out,
             hp\<lparr>components := AList.delete component (components hp),
                connections := copy'\<rparr>)))"

section \<open>Notions used to state the properties\<close>

text \<open>A Python dictionary has no duplicate keys.\<close>

definition dict_ok :: "('k \<times> 'v) list \<Rightarrow> bool" where
  "dict_ok d = distinct (keys d)"

text \<open>The test of the cascade in \<^verbatim>\<open>delete_component\<close>.\<close>

definition incident :: "string \<Rightarrow> connection \<Rightarrow> bool" where
  "incident component conn = (component = label (source conn) \<or> component = label (target conn))"

text \<open>The table entry that a successful \<^verbatim>\<open>set_conn\<close> call writes, and the condition
  under which the call does not raise.\<close>

definition mk_connection :: "(string \<times> component) list \<Rightarrow> conn_args \<Rightarrow> string \<times> connection" where
  "mk_connection comps = (\<lambda>(lbl, comp_out, outlet, comp_in, inlet).
     (lbl, \<lparr>source = the (map_of comps comp_out), source_id = outlet,
            target = the (map_of comps comp_in), target_id = inlet, conn_label = lbl\<rparr>))"

definition endpoints_exist :: "(string \<times> component) list \<Rightarrow> conn_args \<Rightarrow> bool" where
  "endpoints_exist comps = (\<lambda>(lbl, comp_out, outlet, comp_in, inlet).
     comp_out \<in> set (keys comps) \<and> comp_in \<in> set (keys comps))"

text \<open>Decimal digits, and strings that do not go on with a digit: what may follow a
  number in a label.\<close>

definition is_digit :: "char \<Rightarrow> bool" where
  "is_digit ch = (ch \<in> set ''0123456789'')"

definition nd :: "string \<Rightarrow> bool" where
  "nd s = (case s of [] \<Rightarrow> True | ch # _ \<Rightarrow> \<not> is_digit ch)"

text \<open>Reading the arguments of a \<^verbatim>\<open>set_conn\<close> call.\<close>

definition outlet_of :: "conn_args \<Rightarrow> string" where
  "outlet_of = (\<lambda>(lbl, comp_out, outlet, comp_in, inlet). outlet)"

definition endpoints :: "conn_args \<Rightarrow> string \<times> string \<times> string \<times> string" where
  "endpoints = (\<lambda>(lbl, comp_out, outlet, comp_in, inlet). (comp_out, outlet, comp_in, inlet))"

text \<open>Cycle \<open>s\<close> has cycle \<open>c\<close> among the targets of its \<^verbatim>\<open>int_heatex\<close> entry.\<close>

definition targets_cycle :: "heatpump \<Rightarrow> int \<Rightarrow> int \<Rightarrow> bool" where
  "targets_cycle hp s c =
     (case map_of (int_heatex hp) s of
        None \<Rightarrow> False
      | Some (Single t) \<Rightarrow> t = c
      | Some (Multi ts) \<Rightarrow> c \<in> set ts)"

text \<open>A cold-side chain, as the specification words it: the upstream second outlet feeds
  the cold inlet of the first unit, the cold outlet of each unit the cold inlet of the
  next, and the last cold outlet (the upstream outlet, when there is no unit) the
  inlet of the compressor.\<close>

fun cold_links :: "string \<Rightarrow> string list \<Rightarrow> string \<Rightarrow> (string \<times> string \<times> string \<times> string) list" where
  "cold_links upstream [] compressor = [(upstream, ''out2'', compressor, ''in1'')]"
| "cold_links upstream (unit # units) compressor =
     (upstream, ''out2'', unit, ''in2'') # cold_links unit units compressor"

text \<open>Names for parts of the loops of \<^verbatim>\<open>generate_topology\<close>: the component that
  feeds the next cold-side connection, the call of one pass of each chain loop, and the
  compressor that the cold side ends at.\<close>

definition cold_upstream :: "int \<Rightarrow> int option \<Rightarrow> string" where
  "cold_upstream c l =
     (if falsy l then (if c = 1 then ''Evaporator 1''
                       else ''Heat Exchanger '' @ str_int (c - 1) @ ''_'' @ str_int c)
      else ''Internal Heat Exchanger '' @ last_str l @ ''_'' @ str_int c)"

definition cold_call :: "int \<Rightarrow> int option \<Rightarrow> int \<Rightarrow> conn_args" where
  "cold_call c l x = hd (fst (cold_chain c l [x]))"

definition hot_call :: "heatpump \<Rightarrow> int \<Rightarrow> string \<Rightarrow> string \<Rightarrow> conn_args" where
  "hot_call hp c l ihx = hd (fst (hot_chain hp c l [ihx]))"

definition first_compressor :: "heatpump \<Rightarrow> int \<Rightarrow> string" where
  "first_compressor hp c =
     (if map_of (intercooler hp) c = None then ''Compressor '' @ str_int c
      else ''Compressor '' @ str_int c @ ''-1'')"

text \<open>The outcome of a build as seen from outside: the exception, or the two tables.\<close>

definition tables :: "error + heatpump \<Rightarrow> error + (string \<times> component) list \<times> (string \<times> connection) list" where
  "tables r = map_sum id (\<lambda>hp. (components hp, connections hp)) r"

text \<open>Shorthand for writing down a component object and a connection-table entry.\<close>

definition obj :: "tespy_class \<Rightarrow> string \<Rightarrow> component" where
  "obj cls l = \<lparr>comp_class = cls, label = l\<rparr>"

definition link :: "string \<Rightarrow> component \<Rightarrow> string \<Rightarrow> component \<Rightarrow> string \<Rightarrow> string \<times> connection" where
  "link lbl a outlet b inlet =
     (lbl, \<lparr>source = a, source_id = outlet, target = b, target_id = inlet, conn_label = lbl\<rparr>)"

text \<open>Two concrete heat pumps: a single stage without options, and a single stage
  whose compression is split by one intercooler.\<close>

definition single_stage :: heatpump where
  "single_stage = projr (Heatpump_init 1 [] [])"

definition intercooled :: heatpump where
  "intercooled = projr (Heatpump_init 1 [] [(1, \<lparr>amount = 1, ic_type = ''HeatExchanger''\<rparr>)])"

section \<open>Decimal strings\<close>

lemma nd_simps [simp]: "nd []" "nd (ch # s) = (\<not> is_digit ch)"
  by (simp_all add: nd_def)

lemma lt10_cases: "n < 10 \<Longrightarrow> n \<in> {0, 1, 2, 3, 4, 5, 6, 7, 8, 9::nat}"
  by auto

lemma is_digit_digit_char: "n < 10 \<Longrightarrow> is_digit (digit_char n)"
  by (drule lt10_cases) (auto simp: is_digit_def digit_char_def)

lemma digit_char_inj: "m < 10 \<Longrightarrow> n < 10 \<Longrightarrow> digit_char m = digit_char n \<Longrightarrow> m = n"
  by (drule lt10_cases, drule lt10_cases) (auto simp: digit_char_def)

lemma str_nat_nonempty [simp]: "str_nat n \<noteq> []" "[] \<noteq> str_nat n"
  by (subst str_nat.simps, simp)+

lemma str_nat_digits: "ch \<in> set (str_nat n) \<Longrightarrow> is_digit ch"
proof (induction n rule: str_nat.induct)
  case (1 n)
  have sn: "str_nat n = (if n < 10 then [digit_char n] else str_nat (n div 10) @ [digit_char (n mod 10)])"
    by (rule str_nat.simps)
  show ?case
  proof (cases "n < 10")
    case True
    with "1.prems" sn show ?thesis
      by (simp add: is_digit_digit_char)
  next
    case False
    with "1.prems" sn have "ch \<in> set (str_nat (n div 10)) \<or> ch = digit_char (n mod 10)"
      by auto
    then show ?thesis
      using "1.IH" False by (auto simp: is_digit_digit_char)
  qed
qed

lemma str_nat_inj: "str_nat m = str_nat n \<Longrightarrow> m = n"
proof (induction m arbitrary: n rule: str_nat.induct)
  case (1 m)
  have sm: "str_nat m = (if m < 10 then [digit_char m] else str_nat (m div 10) @ [digit_char (m mod 10)])"
    by (rule str_nat.simps)
  have sn: "str_nat n = (if n < 10 then [digit_char n] else str_nat (n div 10) @ [digit_char (n mod 10)])"
    by (rule str_nat.simps)
  show ?case
  proof (cases "m < 10")
    case True
    show ?thesis
    proof (cases "n < 10")
      case n: True
      with True "1.prems" sm sn show ?thesis by (auto dest: digit_char_inj)
    next
      case n: False
      with True "1.prems" sm sn show ?thesis by auto
    qed
  next
    case False
    show ?thesis
    proof (cases "n < 10")
      case n: True
      with False "1.prems" sm sn show ?thesis by auto
    next
      case n: False
      with False "1.prems" sm sn
      have e: "str_nat (m div 10) = str_nat (n div 10)" "digit_char (m mod 10) = digit_char (n mod 10)"
        by auto
      have "m div 10 = n div 10" using "1.IH" [OF False e(1)] .
      moreover have "m mod 10 = n mod 10"
        by (rule digit_char_inj [OF _ _ e(2)]) simp_all
      ultimately show ?thesis by (metis div_mult_mod_eq)
    qed
  qed
qed

lemma takeWhile_digits_str_nat: "nd x \<Longrightarrow> takeWhile is_digit (str_nat n @ x) = str_nat n"
  by (cases x) (auto simp: takeWhile_append str_nat_digits nd_def takeWhile_eq_all_conv)

lemma str_nat_parse:
  assumes "str_nat m @ x = str_nat n @ y" "nd x" "nd y"
  shows "m = n \<and> x = y"
proof -
  have "str_nat m = takeWhile is_digit (str_nat m @ x)"
    using assms(2) by (simp add: takeWhile_digits_str_nat)
  also have "\<dots> = str_nat n"
    using assms(1,3) by (simp add: takeWhile_digits_str_nat)
  finally show ?thesis using assms(1) by (auto dest: str_nat_inj)
qed

lemma minus_not_digit: "\<not> is_digit CHR ''-''"
  by (simp add: is_digit_def)

lemma str_int_nonempty [simp]: "str_int i \<noteq> []"
  by (simp add: str_int_def)

lemma hd_str_nat_digit: "is_digit (hd (str_nat n))"
  using str_nat_nonempty(1) [of n] str_nat_digits [of "hd (str_nat n)" n] by simp

lemma str_int_parse:
  assumes "str_int a @ x = str_int b @ y" "nd x" "nd y"
  shows "a = b \<and> x = y"
proof -
  have neg_pos: False if "CHR ''-'' # u = str_nat n @ v" for u n v
  proof -
    from that have "hd (str_nat n @ v) = CHR ''-''" by (metis list.sel(1))
    then have "hd (str_nat n) = CHR ''-''" by simp
    then show False using hd_str_nat_digit [of n] minus_not_digit by simp
  qed
  consider "a < 0" "b < 0" | "a < 0" "\<not> b < 0" | "\<not> a < 0" "b < 0" | "\<not> a < 0" "\<not> b < 0"
    by blast
  then show ?thesis
  proof cases
    case 1
    with assms(1) have "str_nat (nat (- a)) @ x = str_nat (nat (- b)) @ y"
      by (simp add: str_int_def)
    from str_nat_parse [OF this assms(2,3)] 1 show ?thesis by auto
  next
    case 2
    with assms(1) neg_pos [of "str_nat (nat (- a)) @ x" "nat b" y] show ?thesis
      by (simp add: str_int_def)
  next
    case 3
    with assms(1) neg_pos [of "str_nat (nat (- b)) @ y" "nat a" x] show ?thesis
      by (simp add: str_int_def)
  next
    case 4
    with assms(1) have "str_nat (nat a) @ x = str_nat (nat b) @ y"
      by (simp add: str_int_def)
    from str_nat_parse [OF this assms(2,3)] 4 show ?thesis by auto
  qed
qed

lemma str_int_eq_iff [simp]:
  "nd x \<Longrightarrow> nd y \<Longrightarrow> (str_int a @ x = str_int b @ y) = (a = b \<and> x = y)"
  "nd x \<Longrightarrow> (str_int a @ x = str_int b) = (a = b \<and> x = [])"
  "nd y \<Longrightarrow> (str_int a = str_int b @ y) = (a = b \<and> y = [])"
  "(str_int a = str_int b) = (a = b)"
  using str_int_parse [of a x b y] str_int_parse [of a x b "[]"] str_int_parse [of a "[]" b y]
    str_int_parse [of a "[]" b "[]"]
  by auto

lemma str_int_1: "str_int 1 = ''1''"
  by (simp add: str_int_def str_nat.simps digit_char_def)

lemma str_int_lit1 [simp]:
  "nd x \<Longrightarrow> nd y \<Longrightarrow> (str_int a @ x = CHR ''1'' # y) = (a = 1 \<and> x = y)"
  "nd x \<Longrightarrow> nd y \<Longrightarrow> (CHR ''1'' # y = str_int a @ x) = (a = 1 \<and> x = y)"
  "nd y \<Longrightarrow> (str_int a = CHR ''1'' # y) = (a = 1 \<and> y = [])"
  "nd y \<Longrightarrow> (CHR ''1'' # y = str_int a) = (a = 1 \<and> y = [])"
proof -
  have e: "CHR ''1'' # y = str_int 1 @ y" by (simp only: str_int_1 append_Cons append_Nil)
  show "nd x \<Longrightarrow> nd y \<Longrightarrow> (str_int a @ x = CHR ''1'' # y) = (a = 1 \<and> x = y)"
    unfolding e by (rule str_int_eq_iff(1))
  show "nd x \<Longrightarrow> nd y \<Longrightarrow> (CHR ''1'' # y = str_int a @ x) = (a = 1 \<and> x = y)"
    unfolding e using str_int_eq_iff(1) [of y x 1 a] by blast
  show "nd y \<Longrightarrow> (str_int a = CHR ''1'' # y) = (a = 1 \<and> y = [])"
    unfolding e by (rule str_int_eq_iff(3))
  show "nd y \<Longrightarrow> (CHR ''1'' # y = str_int a) = (a = 1 \<and> y = [])"
    unfolding e using str_int_eq_iff(2) [of y 1 a] by blast
qed

lemma str_int_chars: "ch \<in> set (str_int i) \<Longrightarrow> is_digit ch \<or> ch = CHR ''-''"
  by (auto simp: str_int_def dest: str_nat_digits split: if_splits)

lemma str_int_nonneg_digits: "0 \<le> i \<Longrightarrow> ch \<in> set (str_int i) \<Longrightarrow> is_digit ch"
  by (auto simp: str_int_def dest: str_nat_digits)

section \<open>Dictionaries\<close>

lemma dict_ok_assign: "dict_ok d \<Longrightarrow> dict_ok (assign d kv)"
  by (simp add: dict_ok_def keys_def assign_def distinct_update)

lemma dict_ok_delete: "dict_ok d \<Longrightarrow> dict_ok (AList.delete k d)"
  by (simp add: dict_ok_def keys_def distinct_delete)

lemma map_of_assign: "map_of (assign d kv) = (map_of d)(fst kv \<mapsto> snd kv)"
  by (simp add: assign_def update_conv')

lemma keys_assign: "set (keys (assign d kv)) = insert (fst kv) (set (keys d))"
  using dom_update [of "fst kv" "snd kv" d] by (simp add: assign_def keys_def)

lemma in_keys_iff: "k \<in> set (keys d) \<longleftrightarrow> map_of d k \<noteq> None"
  by (simp add: keys_def map_of_eq_None_iff)

lemma dict_ok_foldl_assign: "dict_ok d \<Longrightarrow> dict_ok (foldl assign d ws)"
  by (induction ws arbitrary: d) (simp_all add: dict_ok_assign)

lemma keys_foldl_assign: "set (keys (foldl assign d ws)) = set (keys d) \<union> fst ` set ws"
  by (induction ws arbitrary: d) (auto simp: keys_assign)

lemma map_of_foldl_assign: "map_of (foldl assign d ws) = map_of d ++ map_of (rev ws)"
proof (induction ws arbitrary: d)
  case Nil
  then show ?case by simp
next
  case (Cons w ws)
  have "map_of (foldl assign d (w # ws)) = map_of (assign d w) ++ map_of (rev ws)"
    using Cons.IH by simp
  also have "\<dots> = map_of d ++ map_of (rev (w # ws))"
    by (cases w) (simp add: map_of_assign map_add_upd_left fun_eq_iff map_add_def split: option.splits)
  finally show ?case .
qed

lemma foldl_assign_fresh:
  "distinct (keys d @ map fst ws) \<Longrightarrow> foldl assign d ws = d @ ws"
proof (induction ws arbitrary: d)
  case Nil
  then show ?case by simp
next
  case (Cons w ws)
  have fresh: "fst w \<notin> set (map fst d)" using Cons.prems by (auto simp: keys_def)
  have "assign d w = d @ [w]"
    unfolding assign_def using fresh by (induction d) auto
  moreover have "distinct (keys (d @ [w]) @ map fst ws)"
    using Cons.prems by (auto simp: keys_def)
  ultimately show ?case using Cons.IH [of "d @ [w]"] by simp
qed

lemma set_assign_subset: "set (assign d kv) \<subseteq> insert kv (set d)"
  unfolding assign_def by (induction d) auto

lemma set_foldl_assign_subset: "set (foldl assign d ws) \<subseteq> set d \<union> set ws"
proof (induction ws arbitrary: d)
  case Nil
  then show ?case by simp
next
  case (Cons w ws)
  show ?case using Cons.IH [of "assign d w"] set_assign_subset [of d w] by auto
qed

lemma map_of_rev_unique:
  assumes "(k, v) \<in> set ws" and "\<And>v'. (k, v') \<in> set ws \<Longrightarrow> v' = v"
  shows "map_of (rev ws) k = Some v"
proof -
  have "k \<in> fst ` set (rev ws)" using assms(1) by force
  then obtain v' where v': "map_of (rev ws) k = Some v'"
    by (cases "map_of (rev ws) k") (auto simp: map_of_eq_None_iff)
  then have "(k, v') \<in> set ws" by (auto dest: map_of_SomeD)
  with assms(2) v' show ?thesis by simp
qed

lemma length_assign: "length d \<le> length (assign d kv)"
  unfolding assign_def by (induction d) auto

lemma length_foldl_assign: "length d \<le> length (foldl assign d ws)"
proof (induction ws arbitrary: d)
  case Nil
  then show ?case by simp
next
  case (Cons w ws)
  show ?case using Cons.IH [of "assign d w"] length_assign [of d w] by simp
qed

section \<open>Running \<^verbatim>\<open>set_conn\<close> calls\<close>

lemma set_conn_eq:
  "set_conn lbl co outlet ci inlet hp =
     (if co \<notin> set (keys (components hp)) then Inl (KeyError co)
      else if ci \<notin> set (keys (components hp)) then Inl (KeyError ci)
      else Inr (hp\<lparr>connections :=
                  assign (connections hp) (mk_connection (components hp) (lbl, co, outlet, ci, inlet))\<rparr>))"
  by (auto simp: set_conn_def mk_connection_def in_keys_iff split: option.splits)

lemma set_conns_ok:
  "\<forall>c \<in> set cs. endpoints_exist (components hp) c \<Longrightarrow>
   set_conns cs hp =
     Inr (hp\<lparr>connections := foldl assign (connections hp) (map (mk_connection (components hp)) cs)\<rparr>)"
proof (induction cs arbitrary: hp)
  case Nil
  then show ?case by simp
next
  case (Cons c cs)
  obtain lbl co outlet ci inlet where c: "c = (lbl, co, outlet, ci, inlet)"
    by (cases c)
  let ?hp' = "hp\<lparr>connections := assign (connections hp) (mk_connection (components hp) c)\<rparr>"
  have step: "set_conn lbl co outlet ci inlet hp = Inr ?hp'"
    using Cons.prems by (simp add: set_conn_eq c endpoints_exist_def)
  have "\<forall>c \<in> set cs. endpoints_exist (components ?hp') c"
    using Cons.prems by simp
  from Cons.IH [OF this] show ?case
    by (simp add: c step)
qed

lemma set_conns_Inr:
  assumes "set_conns cs hp = Inr hp'"
  shows "(\<forall>c \<in> set cs. endpoints_exist (components hp) c)"
  using assms
proof (induction cs arbitrary: hp)
  case Nil
  then show ?case by simp
next
  case (Cons c cs)
  obtain lbl co outlet ci inlet where c: "c = (lbl, co, outlet, ci, inlet)"
    by (cases c)
  from Cons.prems obtain hp1 where
    step: "set_conn lbl co outlet ci inlet hp = Inr hp1" and rest: "set_conns cs hp1 = Inr hp'"
    by (auto simp: c split: sum.splits)
  have ex: "endpoints_exist (components hp) c" and comps: "components hp1 = components hp"
    using step by (auto simp: set_conn_eq c endpoints_exist_def split: if_splits)
  from Cons.IH [OF rest] show ?case using ex comps by simp
qed

lemma set_conns_result:
  assumes "set_conns cs hp = Inr hp'"
  shows "hp' = hp\<lparr>connections := foldl assign (connections hp) (map (mk_connection (components hp)) cs)\<rparr>"
  using set_conns_ok [OF set_conns_Inr [OF assms]] assms by simp

lemma generate_topology_result:
  assumes "generate_topology hp = Inr hp'"
  shows "components hp' = components hp"
    and "connections hp' =
           foldl assign (connections hp) (map (mk_connection (components hp)) (topology_conns hp))"
  using set_conns_result [OF assms [unfolded generate_topology_def]] by simp_all

lemma Heatpump_init_dict_ok:
  assumes "Heatpump_init nr ihx ic = Inr hp"
  shows "dict_ok (components hp)" and "dict_ok (connections hp)"
proof -
  let ?hp0 = "\<lparr>nr_cycles = nr, int_heatex = ihx, intercooler = ic, components = [], connections = []\<rparr>"
  let ?hp1 = "(generate_components ?hp0)\<lparr>connections := []\<rparr>"
  have gt: "generate_topology ?hp1 = Inr hp"
    using assms by (simp add: Heatpump_init_def)
  have "dict_ok ([] :: (string \<times> component) list)"
    by (simp add: dict_ok_def keys_def)
  then have "dict_ok (components ?hp1)"
    by (simp add: generate_components_def dict_ok_foldl_assign)
  then show "dict_ok (components hp)"
    using generate_topology_result(1) [OF gt] by simp
  have "dict_ok ([] :: (string \<times> connection) list)"
    by (simp add: dict_ok_def keys_def)
  then show "dict_ok (connections hp)"
    using generate_topology_result(2) [OF gt]
    by (simp add: dict_ok_foldl_assign)
qed

section \<open>The two concrete heat pumps\<close>

text \<open>Their tables, computed once from the constructor.\<close>

lemma single_stage_components:
  "components single_stage =
     [(''Heat Source Feed Flow'', obj Source ''Heat Source Feed Flow''),
      (''Heat Source Back Flow'', obj Sink ''Heat Source Back Flow''),
      (''Heat Source Recirculation Pump'', obj Pump ''Heat Source Recirculation Pump''),
      (''Evaporator 1'', obj HeatExchanger ''Evaporator 1''),
      (''Consumer Cycle Closer'', obj CycleCloser ''Consumer Cycle Closer''),
      (''Consumer Recirculation Pump'', obj Pump ''Consumer Recirculation Pump''),
      (''Consumer'', obj HeatExchangerSimple ''Consumer''),
      (''Cycle Closer 1'', obj CycleCloser ''Cycle Closer 1''),
      (''Valve 1'', obj Valve ''Valve 1''),
      (''Condenser 1'', obj Condenser ''Condenser 1''),
      (''Compressor 1'', obj Compressor ''Compressor 1'')]"
  unfolding single_stage_def by code_simp

lemma single_stage_connections:
  "connections single_stage =
       [link ''valve1_to_evaporator1''
          (obj Valve ''Valve 1'') ''out1'' (obj HeatExchanger ''Evaporator 1'') ''in2'',
        link ''heatsource_ff_to_heatsource_pump''
          (obj Source ''Heat Source Feed Flow'') ''out1''
          (obj Pump ''Heat Source Recirculation Pump'') ''in1'',
        link ''heatsource_pump_to_evaporator1''
          (obj Pump ''Heat Source Recirculation Pump'') ''out1''
          (obj HeatExchanger ''Evaporator 1'') ''in1'',
        link ''evaporator1_to_heatsource_bf''
          (obj HeatExchanger ''Evaporator 1'') ''out1''
          (obj Sink ''Heat Source Back Flow'') ''in1'',
        link ''heatsink_cc_to_heatsink_pump''
          (obj CycleCloser ''Consumer Cycle Closer'') ''out1''
          (obj Pump ''Consumer Recirculation Pump'') ''in1'',
        link ''heatsink_pump_to_cond1''
          (obj Pump ''Consumer Recirculation Pump'') ''out1'' (obj Condenser ''Condenser 1'') ''in2'',
        link ''cond1_to_consumer''
          (obj Condenser ''Condenser 1'') ''out2'' (obj HeatExchangerSimple ''Consumer'') ''in1'',
        link ''consumer_to_heatsink_cc''
          (obj HeatExchangerSimple ''Consumer'') ''out1''
          (obj CycleCloser ''Consumer Cycle Closer'') ''in1'',
        link ''cc1_to_valve1''
          (obj CycleCloser ''Cycle Closer 1'') ''out1'' (obj Valve ''Valve 1'') ''in1'',
        link ''evaporator1_to_comp1''
          (obj HeatExchanger ''Evaporator 1'') ''out2'' (obj Compressor ''Compressor 1'') ''in1'',
        link ''comp1_to_cond1''
          (obj Compressor ''Compressor 1'') ''out1'' (obj Condenser ''Condenser 1'') ''in1'',
        link ''cond1_to_cc1''
          (obj Condenser ''Condenser 1'') ''out1'' (obj CycleCloser ''Cycle Closer 1'') ''in1'']"
  unfolding single_stage_def by code_simp

lemma single_stage_built: "Heatpump_init 1 [] [] = Inr single_stage"
proof -
  have "\<not> isl (Heatpump_init 1 [] [])" by code_simp
  then show ?thesis by (simp add: single_stage_def)
qed

lemma intercooled_components:
  "components intercooled =
     [(''Heat Source Feed Flow'', obj Source ''Heat Source Feed Flow''),
      (''Heat Source Back Flow'', obj Sink ''Heat Source Back Flow''),
      (''Heat Source Recirculation Pump'', obj Pump ''Heat Source Recirculation Pump''),
      (''Evaporator 1'', obj HeatExchanger ''Evaporator 1''),
      (''Consumer Cycle Closer'', obj CycleCloser ''Consumer Cycle Closer''),
      (''Consumer Recirculation Pump'', obj Pump ''Consumer Recirculation Pump''),
      (''Consumer'', obj HeatExchangerSimple ''Consumer''),
      (''Cycle Closer 1'', obj CycleCloser ''Cycle Closer 1''),
      (''Valve 1'', obj Valve ''Valve 1''),
      (''Condenser 1'', obj Condenser ''Condenser 1''),
      (''Intercooler 1-1'', obj HeatExchanger ''Intercooler 1-1''),
      (''Compressor 1-1'', obj Compressor ''Compressor 1_1''),
      (''Compressor 1-2'', obj Compressor ''Compressor 1_2'')]"
  unfolding intercooled_def by code_simp

lemma intercooled_connections:
  "connections intercooled =
       [link ''valve1_to_evaporator1''
          (obj Valve ''Valve 1'') ''out1'' (obj HeatExchanger ''Evaporator 1'') ''in2'',
        link ''heatsource_ff_to_heatsource_pump''
          (obj Source ''Heat Source Feed Flow'') ''out1''
          (obj Pump ''Heat Source Recirculation Pump'') ''in1'',
        link ''heatsource_pump_to_evaporator1''
          (obj Pump ''Heat Source Recirculation Pump'') ''out1''
          (obj HeatExchanger ''Evaporator 1'') ''in1'',
        link ''evaporator1_to_heatsource_bf''
          (obj HeatExchanger ''Evaporator 1'') ''out1''
          (obj Sink ''Heat Source Back Flow'') ''in1'',
        link ''heatsink_cc_to_heatsink_pump''
          (obj CycleCloser ''Consumer Cycle Closer'') ''out1''
          (obj Pump ''Consumer Recirculation Pump'') ''in1'',
        link ''heatsink_pump_to_cond1''
          (obj Pump ''Consumer Recirculation Pump'') ''out1'' (obj Condenser ''Condenser 1'') ''in2'',
        link ''cond1_to_consumer''
          (obj Condenser ''Condenser 1'') ''out2'' (obj HeatExchangerSimple ''Consumer'') ''in1'',
        link ''consumer_to_heatsink_cc''
          (obj HeatExchangerSimple ''Consumer'') ''out1''
          (obj CycleCloser ''Consumer Cycle Closer'') ''in1'',
        link ''cc1_to_valve1''
          (obj CycleCloser ''Cycle Closer 1'') ''out1'' (obj Valve ''Valve 1'') ''in1'',
        link ''evaporator1_to_comp1-1''
          (obj HeatExchanger ''Evaporator 1'') ''out2'' (obj Compressor ''Compressor 1_1'') ''in1'',
        link ''comp1-1_to_intercooler1-1''
          (obj Compressor ''Compressor 1_1'') ''out1''
          (obj HeatExchanger ''Intercooler 1-1'') ''in1'',
        link ''intercooler1-1_to_comp1-2''
          (obj HeatExchanger ''Intercooler 1-1'') ''out1''
          (obj Compressor ''Compressor 1_2'') ''in1'',
        link ''comp1-2_to_cond1''
          (obj Compressor ''Compressor 1_2'') ''out1'' (obj Condenser ''Condenser 1'') ''in1'',
        link ''cond1_to_cc1''
          (obj Condenser ''Condenser 1'') ''out1'' (obj CycleCloser ''Cycle Closer 1'') ''in1'']"
  unfolding intercooled_def by code_simp

lemma intercooled_built:
  "Heatpump_init 1 [] [(1, \<lparr>amount = 1, ic_type = ''HeatExchanger''\<rparr>)] = Inr intercooled"
proof -
  have "\<not> isl (Heatpump_init 1 [] [(1, \<lparr>amount = 1, ic_type = ''HeatExchanger''\<rparr>)])"
    by code_simp
  then show ?thesis by (simp add: intercooled_def)
qed

lemmas example_simps =
  single_stage_components single_stage_connections intercooled_components
  intercooled_connections link_def obj_def keys_def dict_ok_def incident_def

section \<open>The assignments of \<^verbatim>\<open>generate_components\<close>\<close>

lemma in_component_assignments:
  "kv \<in> set (component_assignments hp) \<longleftrightarrow>
     kv \<in> set skeleton_components
     \<or> (\<exists>c. 1 \<le> c \<and> c \<le> nr_cycles hp \<and> kv \<in> set (cycle_components hp c))"
  by (auto simp: component_assignments_def)

lemma in_cycle_components:
  "kv \<in> set (cycle_components hp c) \<longleftrightarrow>
     kv = new_component CycleCloser (''Cycle Closer '' @ str_int c)
     \<or> kv = new_component Valve (''Valve '' @ str_int c)
     \<or> (c \<noteq> 1 \<and> kv = new_component HeatExchanger
                         (''Heat Exchanger '' @ str_int (c - 1) @ ''_'' @ str_int c))
     \<or> (c = nr_cycles hp \<and> kv = new_component Condenser (''Condenser '' @ str_int c))
     \<or> (\<exists>e i. map_of (intercooler hp) c = Some e \<and> 1 \<le> i \<and> i \<le> amount e + 1
            \<and> kv \<in> set (intercooler_stage c (amount e) (ic_type e) i))
     \<or> (map_of (intercooler hp) c = None
          \<and> kv = new_component Compressor (''Compressor '' @ str_int c))
     \<or> (\<exists>ts t. map_of (int_heatex hp) c = Some (Multi ts) \<and> t \<in> set ts
            \<and> kv = new_component HeatExchanger
                    (''Internal Heat Exchanger '' @ str_int c @ ''_'' @ str_int t))
     \<or> (\<exists>t. map_of (int_heatex hp) c = Some (Single t)
            \<and> kv = new_component HeatExchanger
                    (''Internal Heat Exchanger '' @ str_int c @ ''_'' @ str_int t))"
proof -
  have ic: "kv \<in> set (case map_of (intercooler hp) c of
               Some e \<Rightarrow> concat (map (intercooler_stage c (amount e) (ic_type e)) [1..amount e + 1])
             | None \<Rightarrow> [new_component Compressor (''Compressor '' @ str_int c)]) \<longleftrightarrow>
        (\<exists>e i. map_of (intercooler hp) c = Some e \<and> 1 \<le> i \<and> i \<le> amount e + 1
            \<and> kv \<in> set (intercooler_stage c (amount e) (ic_type e) i))
        \<or> (map_of (intercooler hp) c = None
            \<and> kv = new_component Compressor (''Compressor '' @ str_int c))"
    by (cases "map_of (intercooler hp) c") auto
  have ih: "kv \<in> set (case map_of (int_heatex hp) c of
               Some (Multi ts) \<Rightarrow>
                 map (\<lambda>target_cycle. new_component HeatExchanger
                   (''Internal Heat Exchanger '' @ str_int c @ ''_'' @ str_int target_cycle)) ts
             | Some (Single t) \<Rightarrow>
                 [new_component HeatExchanger
                   (''Internal Heat Exchanger '' @ str_int c @ ''_'' @ str_int t)]
             | None \<Rightarrow> []) \<longleftrightarrow>
        (\<exists>ts t. map_of (int_heatex hp) c = Some (Multi ts) \<and> t \<in> set ts
            \<and> kv = new_component HeatExchanger
                    (''Internal Heat Exchanger '' @ str_int c @ ''_'' @ str_int t))
        \<or> (\<exists>t. map_of (int_heatex hp) c = Some (Single t)
            \<and> kv = new_component HeatExchanger
                    (''Internal Heat Exchanger '' @ str_int c @ ''_'' @ str_int t))"
  proof (cases "map_of (int_heatex hp) c")
    case None
    then show ?thesis by simp
  next
    case (Some v)
    then show ?thesis by (cases v) auto
  qed
  have opt: "x \<in> set (if P then [y] else []) \<longleftrightarrow> P \<and> x = y" for x y :: "string \<times> component" and P
    by auto
  show ?thesis
    unfolding cycle_components_def set_append Un_iff ic ih opt
    by (simp only: list.set insert_iff empty_iff) blast
qed

lemma in_intercooler_stage:
  "kv \<in> set (intercooler_stage c n ty i) \<longleftrightarrow>
     (i < n + 1 \<and> ty = ''HeatExchanger''
        \<and> kv = new_component HeatExchanger (''Intercooler '' @ str_int c @ ''-'' @ str_int i))
     \<or> (i < n + 1 \<and> ty = ''HeatExchangerSimple''
        \<and> kv = new_component HeatExchangerSimple (''Intercooler '' @ str_int c @ ''-'' @ str_int i))
     \<or> kv = (''Compressor '' @ str_int c @ ''-'' @ str_int i,
             \<lparr>comp_class = Compressor, label = ''Compressor '' @ str_int c @ ''_'' @ str_int i\<rparr>)"
  unfolding intercooler_stage_def by auto

text \<open>No component object carries a label of the hyphen form.\<close>

lemma assigned_label_not_hyphen:
  assumes "(k, v) \<in> set (component_assignments hp)"
  shows "label v \<noteq> ''Compressor '' @ str_int c @ ''-'' @ str_int i"
  using assms
  by (auto simp: in_component_assignments in_cycle_components in_intercooler_stage
      skeleton_components_def new_component_def is_digit_def)

lemma assigned_hyphen_key_value:
  assumes "(''Compressor '' @ str_int c @ ''-'' @ str_int i, v) \<in> set (component_assignments hp)"
  shows "v = \<lparr>comp_class = Compressor, label = ''Compressor '' @ str_int c @ ''_'' @ str_int i\<rparr>"
  using assms
  by (auto simp: in_component_assignments in_cycle_components in_intercooler_stage
      skeleton_components_def new_component_def is_digit_def)


section \<open>What the constructor returns\<close>

lemma component_assignments_cong:
  assumes "nr_cycles hp = nr_cycles hp'" "int_heatex hp = int_heatex hp'"
    "intercooler hp = intercooler hp'"
  shows "component_assignments hp = component_assignments hp'"
proof -
  have "cycle_components hp = cycle_components hp'"
    using assms by (intro ext) (simp add: cycle_components_def)
  then show ?thesis using assms(1) by (simp add: component_assignments_def)
qed

lemma collect_int_heatex_cong:
  assumes "int_heatex hp = int_heatex hp'"
  shows "collect_int_heatex hp c xs acc = collect_int_heatex hp' c xs acc"
  using assms by (induction xs arbitrary: acc) simp_all

lemma hot_chain_cong:
  assumes "nr_cycles hp = nr_cycles hp'"
  shows "hot_chain hp c l xs = hot_chain hp' c l xs"
proof (induction xs arbitrary: l)
  case Nil
  then show ?case by simp
next
  case (Cons a xs)
  show ?case by (simp add: Cons.IH assms Let_def)
qed

lemma cycle_conns_cong:
  assumes "nr_cycles hp = nr_cycles hp'" "int_heatex hp = int_heatex hp'"
    "intercooler hp = intercooler hp'" "components hp = components hp'"
  shows "cycle_conns hp c = cycle_conns hp' c"
  unfolding cycle_conns_def compression_conns_def hot_return_conns_def int_heatexs_def
    collect_int_heatex_cong [OF assms(2)] hot_chain_cong [OF assms(1)] assms
  by (rule refl)

lemma topology_conns_cong:
  assumes "nr_cycles hp = nr_cycles hp'" "int_heatex hp = int_heatex hp'"
    "intercooler hp = intercooler hp'" "components hp = components hp'"
  shows "topology_conns hp = topology_conns hp'"
proof -
  have "cycle_conns hp = cycle_conns hp'"
    by (intro ext) (rule cycle_conns_cong [OF assms])
  then show ?thesis using assms(1) by (simp add: topology_conns_def skeleton_conns_def)
qed

lemma Heatpump_init_result:
  assumes "Heatpump_init nr ihx ic = Inr hp"
  shows "nr_cycles hp = nr" and "int_heatex hp = ihx" and "intercooler hp = ic"
    and "components hp = foldl assign [] (component_assignments hp)"
    and "connections hp =
           foldl assign [] (map (mk_connection (components hp)) (topology_conns hp))"
    and "\<forall>c \<in> set (topology_conns hp). endpoints_exist (components hp) c"
proof -
  let ?hp0 = "\<lparr>nr_cycles = nr, int_heatex = ihx, intercooler = ic, components = [], connections = []\<rparr>"
  let ?hp1 = "(generate_components ?hp0)\<lparr>connections := []\<rparr>"
  have run: "set_conns (topology_conns ?hp1) ?hp1 = Inr hp"
    using assms by (simp add: Heatpump_init_def generate_topology_def)
  note ex = set_conns_Inr [OF run]
  note res = set_conns_result [OF run]
  show 1: "nr_cycles hp = nr" and 2: "int_heatex hp = ihx" and 3: "intercooler hp = ic"
    unfolding res by (simp_all add: generate_components_def)
  have c1: "components hp = components ?hp1" unfolding res by simp
  have ca: "component_assignments hp = component_assignments ?hp0"
    by (rule component_assignments_cong) (simp_all add: 1 2 3)
  show 4: "components hp = foldl assign [] (component_assignments hp)"
    unfolding ca c1 by (simp add: generate_components_def)
  have tc: "topology_conns hp = topology_conns ?hp1"
    by (rule topology_conns_cong) (simp_all add: 1 2 3 c1 generate_components_def)
  show "connections hp =
          foldl assign [] (map (mk_connection (components hp)) (topology_conns hp))"
    unfolding tc c1 unfolding res by simp
  show "\<forall>c \<in> set (topology_conns hp). endpoints_exist (components hp) c"
    unfolding tc c1 using ex by simp
qed

lemma built_components:
  assumes "Heatpump_init nr ihx ic = Inr hp"
  shows "set (components hp) \<subseteq> set (component_assignments hp)"
    and "set (keys (components hp)) = fst ` set (component_assignments hp)"
    and "map_of (components hp) = map_of (rev (component_assignments hp))"
proof -
  note c = Heatpump_init_result(4) [OF assms]
  show "set (components hp) \<subseteq> set (component_assignments hp)"
    using set_foldl_assign_subset [of "[]" "component_assignments hp"] c by simp
  show "set (keys (components hp)) = fst ` set (component_assignments hp)"
    using keys_foldl_assign [of "[]" "component_assignments hp"] c by (simp add: keys_def)
  show "map_of (components hp) = map_of (rev (component_assignments hp))"
    using map_of_foldl_assign [of "[]" "component_assignments hp"] c by simp
qed

text \<open>Both endpoints of a connection of the built table are objects of the component
  table.\<close>

lemma built_connection_endpoints:
  assumes "Heatpump_init nr ihx ic = Inr hp" and "(l, conn) \<in> set (connections hp)"
  shows "source conn \<in> snd ` set (components hp)" and "target conn \<in> snd ` set (components hp)"
proof -
  have "(l, conn) \<in> set (map (mk_connection (components hp)) (topology_conns hp))"
    using set_foldl_assign_subset [of "[]" "map (mk_connection (components hp)) (topology_conns hp)"]
      assms(2) Heatpump_init_result(5) [OF assms(1)] by auto
  then obtain call where call: "call \<in> set (topology_conns hp)"
    and mk: "(l, conn) = mk_connection (components hp) call"
    by auto
  obtain lbl co outlet ci inlet where args: "call = (lbl, co, outlet, ci, inlet)"
    by (cases call)
  have "endpoints_exist (components hp) call"
    using Heatpump_init_result(6) [OF assms(1)] call by blast
  then obtain a b where a: "map_of (components hp) co = Some a"
    and b: "map_of (components hp) ci = Some b"
    by (auto simp: endpoints_exist_def args in_keys_iff)
  have "source conn = a" "target conn = b"
    using mk a b by (simp_all add: mk_connection_def args)
  then show "source conn \<in> snd ` set (components hp)" "target conn \<in> snd ` set (components hp)"
    using map_of_SomeD [OF a] map_of_SomeD [OF b] by force+
qed


section \<open>Which configuration entries the build reads\<close>

lemma set_conns_tables:
  assumes "components hp = components hp'" "connections hp = connections hp'"
  shows "tables (set_conns cs hp) = tables (set_conns cs hp')"
  using assms
proof (induction cs arbitrary: hp hp')
  case Nil
  then show ?case by (simp add: tables_def)
next
  case (Cons c cs)
  obtain lbl co outlet ci inlet where c: "c = (lbl, co, outlet, ci, inlet)"
    by (cases c)
  show ?case
  proof (cases "co \<in> set (keys (components hp)) \<and> ci \<in> set (keys (components hp))")
    case True
    let ?e = "mk_connection (components hp) (lbl, co, outlet, ci, inlet)"
    have "set_conns (c # cs) hp = set_conns cs (hp\<lparr>connections := assign (connections hp) ?e\<rparr>)"
      using True by (simp add: c set_conn_eq)
    moreover have "set_conns (c # cs) hp' = set_conns cs (hp'\<lparr>connections := assign (connections hp') ?e\<rparr>)"
      using True Cons.prems by (simp add: c set_conn_eq)
    ultimately show ?thesis
      using Cons.IH [of "hp\<lparr>connections := assign (connections hp) ?e\<rparr>"
          "hp'\<lparr>connections := assign (connections hp') ?e\<rparr>"] Cons.prems
      by simp
  next
    case False
    then show ?thesis using Cons.prems by (auto simp: c set_conn_eq tables_def)
  qed
qed

lemma collect_int_heatex_in_range:
  assumes "\<forall>i \<in> set xs. map_of (int_heatex hp) i = map_of (int_heatex hp') i"
  shows "collect_int_heatex hp c xs acc = collect_int_heatex hp' c xs acc"
  using assms by (induction xs arbitrary: acc) simp_all

lemma Heatpump_init_in_range:
  assumes "\<forall>c. 1 \<le> c \<and> c \<le> nr \<longrightarrow> map_of ihx c = map_of ihx' c \<and> map_of ic c = map_of ic' c"
  shows "tables (Heatpump_init nr ihx ic) = tables (Heatpump_init nr ihx' ic')"
proof -
  let ?hp0 = "\<lparr>nr_cycles = nr, int_heatex = ihx, intercooler = ic, components = [], connections = []\<rparr>"
  let ?hp0' = "\<lparr>nr_cycles = nr, int_heatex = ihx', intercooler = ic', components = [], connections = []\<rparr>"
  let ?hp1 = "(generate_components ?hp0)\<lparr>connections := []\<rparr>"
  let ?hp1' = "(generate_components ?hp0')\<lparr>connections := []\<rparr>"
  have cc: "cycle_components ?hp0 c = cycle_components ?hp0' c" if "c \<in> set [1..nr]" for c
    using that assms by (simp add: cycle_components_def)
  have "map (cycle_components ?hp0) [1..nr] = map (cycle_components ?hp0') [1..nr]"
    by (intro map_cong refl cc)
  then have "component_assignments ?hp0 = component_assignments ?hp0'"
    by (simp add: component_assignments_def del: map_eq_conv)
  then have comps: "components ?hp1 = components ?hp1'"
    by (simp add: generate_components_def)
  have coll: "collect_int_heatex ?hp1 c [1..nr] [] = collect_int_heatex ?hp1' c [1..nr] []" for c
    by (rule collect_int_heatex_in_range) (use assms in \<open>simp add: generate_components_def\<close>)
  have nr: "nr_cycles ?hp1 = nr_cycles ?hp1'"
    by (simp add: generate_components_def)
  have tc: "cycle_conns ?hp1 c = cycle_conns ?hp1' c" if "c \<in> set [1..nr]" for c
  proof -
    have ic: "map_of (intercooler ?hp1) c = map_of (intercooler ?hp1') c"
      using that assms by (simp add: generate_components_def)
    have nrs: "nr_cycles ?hp1 = nr" "nr_cycles ?hp1' = nr"
      by (simp_all add: generate_components_def)
    show ?thesis
      unfolding cycle_conns_def compression_conns_def hot_return_conns_def int_heatexs_def
        hot_chain_cong [OF nr] comps ic nrs coll
      by (rule refl)
  qed
  have "map (cycle_conns ?hp1) [1..nr] = map (cycle_conns ?hp1') [1..nr]"
    by (intro map_cong refl tc)
  then have "topology_conns ?hp1 = topology_conns ?hp1'"
    by (simp add: topology_conns_def skeleton_conns_def generate_components_def del: map_eq_conv)
  then show ?thesis
    unfolding Heatpump_init_def generate_topology_def
    using set_conns_tables [of ?hp1 ?hp1' "topology_conns ?hp1'"] comps by simp
qed

lemma skeleton_first:
  "foldl assign [] skeleton_components = skeleton_components"
  by (simp add: skeleton_components_def new_component_def assign_def)

lemma generate_components_skeleton:
  "7 \<le> length (foldl assign [] (component_assignments hp))"
proof -
  have "foldl assign [] (component_assignments hp) =
          foldl assign skeleton_components (concat (map (cycle_components hp) [1..nr_cycles hp]))"
    by (simp add: component_assignments_def skeleton_first)
  moreover have "length skeleton_components = 7"
    by (simp add: skeleton_components_def)
  ultimately show ?thesis
    using length_foldl_assign [of skeleton_components] by metis
qed

lemma tables_Inr:
  assumes "tables r = tables (Inr hp)"
  shows "\<not> isl r" and "components (projr r) = components hp"
    and "connections (projr r) = connections hp"
  using assms by (cases r; simp add: tables_def)+

lemma target_out_of_range_built:
  "case_sum (\<lambda>e. None) (\<lambda>hp. Some (keys (components hp), length (connections hp)))
     (Heatpump_init 1 [(1, Single 5)] []) =
   Some ([''Heat Source Feed Flow'', ''Heat Source Back Flow'', ''Heat Source Recirculation Pump'',
          ''Evaporator 1'', ''Consumer Cycle Closer'', ''Consumer Recirculation Pump'',
          ''Consumer'', ''Cycle Closer 1'', ''Valve 1'', ''Condenser 1'', ''Compressor 1'',
          ''Internal Heat Exchanger 1_5''], 13)"
  by code_simp

section \<open>The chain loops of \<^verbatim>\<open>generate_topology\<close>\<close>

lemma collect_int_heatex_filter:
  "collect_int_heatex hp c xs acc = acc @ filter (\<lambda>s. targets_cycle hp s c) xs"
  by (induction xs arbitrary: acc)
    (auto simp: targets_cycle_def split: option.splits int_heatex_entry.splits)

lemma cold_chain_Cons:
  "fst (cold_chain c l (x # xs)) = cold_call c l x # fst (cold_chain c (Some x) xs)"
  "snd (cold_chain c l (x # xs)) = snd (cold_chain c (Some x) xs)"
  by (simp_all add: cold_call_def Let_def split_beta)

lemma cold_call_endpoints:
  "endpoints (cold_call c l x) =
     (cold_upstream c l, ''out2'',
      ''Internal Heat Exchanger '' @ str_int x @ ''_'' @ str_int c, ''in2'')"
  "outlet_of (cold_call c l x) = ''out2''"
  by (simp_all add: cold_call_def endpoints_def outlet_of_def cold_upstream_def Let_def)

lemma cold_chain_outlets:
  "a \<in> set (fst (cold_chain c l xs)) \<Longrightarrow> outlet_of a = ''out2''"
  by (induction xs arbitrary: l) (auto simp: cold_chain_Cons cold_call_endpoints simp del: cold_chain.simps(2))

lemma cold_chain_links:
  assumes "0 \<notin> set xs"
  shows "map endpoints (fst (cold_chain c l xs))
           @ [(cold_upstream c (snd (cold_chain c l xs)), ''out2'', compressor, ''in1'')] =
         cold_links (cold_upstream c l)
           (map (\<lambda>s. ''Internal Heat Exchanger '' @ str_int s @ ''_'' @ str_int c) xs) compressor"
  using assms
proof (induction xs arbitrary: l)
  case Nil
  then show ?case by simp
next
  case (Cons x xs)
  have x: "x \<noteq> 0" and xs: "0 \<notin> set xs" using Cons.prems by auto
  have up: "cold_upstream c (Some x) = ''Internal Heat Exchanger '' @ str_int x @ ''_'' @ str_int c"
    using x by (simp add: cold_upstream_def falsy_def last_str_def)
  show ?case
    using Cons.IH [OF xs, of "Some x"]
    by (simp add: cold_chain_Cons cold_call_endpoints up del: cold_chain.simps(2))
qed

lemma hot_chain_Cons:
  "fst (hot_chain hp c l (x # xs)) = hot_call hp c l x # fst (hot_chain hp c x xs)"
  "snd (hot_chain hp c l (x # xs)) = snd (hot_chain hp c x xs)"
  by (simp_all add: hot_call_def Let_def split_beta)

lemma hot_call_outlet: "outlet_of (hot_call hp c l x) = ''out1''"
  by (simp add: hot_call_def outlet_of_def Let_def)

lemma hot_chain_outlets:
  "a \<in> set (fst (hot_chain hp c l xs)) \<Longrightarrow> outlet_of a = ''out1''"
  by (induction xs arbitrary: l)
    (auto simp: hot_chain_Cons hot_call_outlet simp del: hot_chain.simps(2))

lemma hot_return_outlets:
  "a \<in> set (hot_return_conns hp c) \<Longrightarrow> outlet_of a = ''out1''"
  by (auto simp: hot_return_conns_def split_beta outlet_of_def dest: hot_chain_outlets
      split: if_splits)

lemma filter_out2_hot: "[a \<leftarrow> hot_return_conns hp c. outlet_of a = ''out2''] = []"
  by (auto simp: filter_empty_conv dest: hot_return_outlets)

lemma compression_conns_out2:
  "map endpoints [a \<leftarrow> compression_conns hp c l. outlet_of a = ''out2''] =
     [(cold_upstream c l, ''out2'', first_compressor hp c, ''in1'')]"
proof (cases "map_of (intercooler hp) c")
  case None
  then show ?thesis
    by (simp add: compression_conns_def outlet_of_def endpoints_def cold_upstream_def
        first_compressor_def)
next
  case (Some e)
  have "[a \<leftarrow> concat (map f xs). outlet_of a = ''out2''] = []"
    if "\<And>i. \<forall>a \<in> set (f i). outlet_of a = ''out1''" for f :: "int \<Rightarrow> conn_args list" and xs
    using that by (induction xs) (auto simp: filter_empty_conv)
  note stages = this
  show ?thesis
    unfolding compression_conns_def Some option.case filter_append
    by (subst stages)
      (simp_all add: outlet_of_def endpoints_def cold_upstream_def first_compressor_def Some)
qed

section \<open>\<^verbatim>\<open>delete_component\<close>: the cascade\<close>

lemma delete_conns_copy:
  "snd (delete_conns component xs copy) =
     filter (\<lambda>(l, c). l \<notin> fst ` {x \<in> set xs. incident component (snd x)}) copy"
proof (induction xs arbitrary: copy)
  case Nil
  then show ?case by simp
next
  case (Cons x xs)
  obtain l c where x: "x = (l, c)" by (cases x)
  show ?case
  proof (cases "incident component c")
    case True
    have "snd (delete_conns component (x # xs) copy) =
            snd (delete_conns component xs (AList.delete l copy))"
      using True by (simp add: x incident_def split: prod.splits)
    also have "\<dots> = filter (\<lambda>(l', c'). l' \<notin> fst ` {y \<in> set xs. incident component (snd y)})
                        (AList.delete l copy)"
      by (rule Cons.IH)
    also have "\<dots> = filter (\<lambda>(l', c'). l' \<notin> fst ` {y \<in> set (x # xs). incident component (snd y)}) copy"
    proof -
      have "fst ` {y \<in> set (x # xs). incident component (snd y)} =
              insert l (fst ` {y \<in> set xs. incident component (snd y)})"
        using True by (force simp: x)
      then show ?thesis
        by (auto simp: AList.delete_eq intro!: filter_cong)
    qed
    finally show ?thesis .
  next
    case False
    have "snd (delete_conns component (x # xs) copy) = snd (delete_conns component xs copy)"
      using False by (simp add: x incident_def)
    also have "\<dots> = filter (\<lambda>(l', c'). l' \<notin> fst ` {y \<in> set xs. incident component (snd y)}) copy"
      by (rule Cons.IH)
    also have "\<dots> = filter (\<lambda>(l', c'). l' \<notin> fst ` {y \<in> set (x # xs). incident component (snd y)}) copy"
    proof -
      have "fst ` {y \<in> set (x # xs). incident component (snd y)} =
              fst ` {y \<in> set xs. incident component (snd y)}"
        using False by (auto simp: x)
      then show ?thesis by simp
    qed
    finally show ?thesis .
  qed
qed

lemma delete_conns_filter:
  assumes "dict_ok d"
  shows "snd (delete_conns component d d) = filter (\<lambda>(l, c). \<not> incident component c) d"
proof -
  have "(l \<notin> fst ` {x \<in> set d. incident component (snd x)}) = (\<not> incident component c)"
    if "(l, c) \<in> set d" for l c
  proof -
    have uniq: "c' = c" if "(l, c') \<in> set d" for c'
      using assms that \<open>(l, c) \<in> set d\<close>
      by (auto simp: dict_ok_def keys_def dest: eq_key_imp_eq_value)
    have "incident component c" if "l \<in> fst ` {x \<in> set d. incident component (snd x)}"
    proof -
      from that obtain c' where "(l, c') \<in> set d" "incident component c'" by auto
      then show ?thesis using uniq by blast
    qed
    moreover have "l \<in> fst ` {x \<in> set d. incident component (snd x)}"
      if "incident component c"
      using that \<open>(l, c) \<in> set d\<close> by (intro image_eqI [where x = "(l, c)"]) auto
    ultimately show ?thesis by blast
  qed
  then show ?thesis
    unfolding delete_conns_copy by (intro filter_cong) auto
qed

lemma delete_component_result:
  assumes "component \<in> set (keys (components hp))" and "dict_ok (connections hp)"
  shows "components (snd (delete_component component hp)) =
           filter (\<lambda>(k, c). k \<noteq> component) (components hp)"
    and "connections (snd (delete_component component hp)) =
           filter (\<lambda>(l, c). \<not> incident component c) (connections hp)"
proof -
  let ?hp' = "snd (delete_component component hp)"
  show "components ?hp' = filter (\<lambda>(k, c). k \<noteq> component) (components hp)"
    using assms(1)
    by (auto simp: delete_component_def AList.delete_eq split: prod.splits intro!: filter_cong)
  have "connections ?hp' = snd (delete_conns component (connections hp) (connections hp))"
    using assms(1) by (simp add: delete_component_def split: prod.splits)
  then show "connections ?hp' = filter (\<lambda>(l, c). \<not> incident component c) (connections hp)"
    using delete_conns_filter [OF assms(2)] by simp
qed

text \<open>
  \<^bold>\<open>C9\<close>.  For a label that is not a key of the component table,
  \<^verbatim>\<open>delete_component\<close> prints the not-found line and returns; the object, and with it
  the component table and the connection table, is unchanged.
\<close>

theorem delete_component_absent:
  assumes "component \<notin> set (keys (components hp))"
  shows "delete_component component hp =
           ([''No component with label '' @ component @ '' found.''], hp)"
  using assms by (simp add: delete_component_def)

theorem delete_component_absent_witness:
  "''Compressor 2'' \<notin> set (keys (components single_stage))
   \<and> delete_component ''Compressor 2'' single_stage =
       ([''No component with label Compressor 2 found.''], single_stage)"
proof -
  have h: "''Compressor 2'' \<notin> set (keys (components single_stage))"
    by (simp add: example_simps)
  have e: "''No component with label '' @ ''Compressor 2'' @ '' found.'' =
             ''No component with label Compressor 2 found.''" by simp
  show ?thesis using h delete_component_absent [OF h] unfolding e by (rule conjI)
qed

text \<open>
  \<^bold>\<open>C8\<close>.  For a key of the component table, \<^verbatim>\<open>delete_component\<close> removes that
  entry of the component table and keeps every other entry; it removes from the
  connection table exactly the connections whose source or target object carries the
  given label and keeps every other connection as it is; and every endpoint label of
  a remaining connection that was a key of the component table before is still one
  afterwards.
\<close>

theorem delete_component_present:
  assumes "component \<in> set (keys (components hp))" and "dict_ok (connections hp)"
  shows "components (snd (delete_component component hp)) =
           filter (\<lambda>(k, c). k \<noteq> component) (components hp)
         \<and> connections (snd (delete_component component hp)) =
             filter (\<lambda>(l, c). \<not> incident component c) (connections hp)
         \<and> (\<forall>(l, c) \<in> set (connections (snd (delete_component component hp))).
              \<forall>k \<in> {label (source c), label (target c)}.
                k \<in> set (keys (components hp)) \<longrightarrow>
                k \<in> set (keys (components (snd (delete_component component hp)))))"
proof -
  let ?hp' = "snd (delete_component component hp)"
  note comps = delete_component_result(1) [OF assms]
  note conns = delete_component_result(2) [OF assms]
  have "k \<in> set (keys (components ?hp'))"
    if "(l, c) \<in> set (connections ?hp')" "k \<in> {label (source c), label (target c)}"
       "k \<in> set (keys (components hp))" for l c k
  proof -
    have "\<not> incident component c" using that(1) unfolding conns by auto
    then have "k \<noteq> component" using that(2) by (auto simp: incident_def)
    then show ?thesis using that(3) unfolding comps keys_def by force
  qed
  then show ?thesis using comps conns by blast
qed

text \<open>The single-stage heat pump has twelve connections; its compressor takes part in
  two of them, and deleting it leaves the other ten.\<close>

theorem delete_component_present_witness:
  "''Compressor 1'' \<in> set (keys (components single_stage))
   \<and> dict_ok (connections single_stage)
   \<and> length (connections single_stage) = 12
   \<and> connections (snd (delete_component ''Compressor 1'' single_stage)) =
       filter (\<lambda>(l, c). \<not> incident ''Compressor 1'' c) (connections single_stage)
   \<and> length (filter (\<lambda>(l, c). \<not> incident ''Compressor 1'' c) (connections single_stage)) = 10"
proof -
  have h1: "''Compressor 1'' \<in> set (keys (components single_stage))"
    by (simp add: example_simps)
  have h2: "dict_ok (connections single_stage)"
    by (simp add: example_simps)
  have n: "length (connections single_stage) = 12"
    by (simp add: example_simps)
  have m: "length (filter (\<lambda>(l, c). \<not> incident ''Compressor 1'' c) (connections single_stage)) = 10"
    by (simp add: example_simps)
  from delete_component_present [OF h1 h2] h1 h2 n m show ?thesis by blast
qed

section \<open>\<^verbatim>\<open>set_conn\<close>: what is checked and what is stored\<close>

text \<open>
  \<^bold>\<open>C6\<close>, as the code has it.  \<^verbatim>\<open>set_conn\<close> checks neither the label nor the
  ports.  It raises \<^verbatim>\<open>KeyError\<close> exactly when \<^verbatim>\<open>comp_out\<close> or
  \<^verbatim>\<open>comp_in\<close> is not a key of the component table (\<^verbatim>\<open>comp_out\<close> is looked up
  first).  Otherwise it succeeds: the component table is unchanged, the new connection
  is assigned to its label, which replaces the entry that the label had, if any, and
  leaves every other entry as it was.  Labels are unique in the sense that they are the
  keys of the table: a table without duplicate keys stays so, and the table of every
  heat pump that the constructor returns has no duplicate keys.
\<close>

theorem set_conn_assigns:
  "(co \<notin> set (keys (components hp)) \<longrightarrow>
      set_conn lbl co outlet ci inlet hp = Inl (KeyError co))
   \<and> (co \<in> set (keys (components hp)) \<and> ci \<notin> set (keys (components hp)) \<longrightarrow>
      set_conn lbl co outlet ci inlet hp = Inl (KeyError ci))
   \<and> (co \<in> set (keys (components hp)) \<and> ci \<in> set (keys (components hp)) \<longrightarrow>
       (\<exists>hp'. set_conn lbl co outlet ci inlet hp = Inr hp'
          \<and> components hp' = components hp
          \<and> map_of (connections hp') =
              (map_of (connections hp))
                (lbl \<mapsto> \<lparr>source = the (map_of (components hp) co), source_id = outlet,
                         target = the (map_of (components hp) ci), target_id = inlet,
                         conn_label = lbl\<rparr>)
          \<and> set (keys (connections hp')) = insert lbl (set (keys (connections hp)))
          \<and> (dict_ok (connections hp) \<longrightarrow> dict_ok (connections hp'))))
   \<and> (\<forall>nr ihx ic built. Heatpump_init nr ihx ic = Inr built \<longrightarrow> dict_ok (connections built))"
  by (auto simp: set_conn_eq mk_connection_def map_of_assign keys_assign dict_ok_assign
      Heatpump_init_dict_ok(2))

text \<open>On the single-stage heat pump: a missing endpoint raises, and a call that reuses
  the label \<^verbatim>\<open>cc1_to_valve1\<close> succeeds.\<close>

theorem set_conn_assigns_witness:
  "''Compressor 1'' \<in> set (keys (components single_stage))
   \<and> ''Valve 1'' \<in> set (keys (components single_stage))
   \<and> ''Pump 1'' \<notin> set (keys (components single_stage))
   \<and> dict_ok (connections single_stage)
   \<and> Heatpump_init 1 [] [] = Inr single_stage
   \<and> set_conn ''pump1_to_valve1'' ''Pump 1'' ''out1'' ''Valve 1'' ''in1'' single_stage =
       Inl (KeyError ''Pump 1'')
   \<and> set_conn ''valve1_to_pump1'' ''Valve 1'' ''out1'' ''Pump 1'' ''in1'' single_stage =
       Inl (KeyError ''Pump 1'')
   \<and> \<not> isl (set_conn ''cc1_to_valve1'' ''Compressor 1'' ''out1'' ''Valve 1'' ''in1'' single_stage)
   \<and> dict_ok (connections (projr
         (set_conn ''cc1_to_valve1'' ''Compressor 1'' ''out1'' ''Valve 1'' ''in1'' single_stage)))"
proof -
  have h1: "''Compressor 1'' \<in> set (keys (components single_stage))"
    by (simp add: example_simps)
  have h2: "''Valve 1'' \<in> set (keys (components single_stage))"
    by (simp add: example_simps)
  have h3: "dict_ok (connections single_stage)"
    by (simp add: example_simps)
  have h4: "''Pump 1'' \<notin> set (keys (components single_stage))"
    by (simp add: example_simps)
  note h5 = single_stage_built
  note t = set_conn_assigns [of "''Compressor 1''" single_stage "''cc1_to_valve1''" "''out1''"
      "''Valve 1''" "''in1''"]
  from t [THEN conjunct2, THEN conjunct2, THEN conjunct1, rule_format, OF conjI [OF h1 h2]]
  obtain hp' where
    a: "set_conn ''cc1_to_valve1'' ''Compressor 1'' ''out1'' ''Valve 1'' ''in1'' single_stage = Inr hp'"
    and "dict_ok (connections single_stage) \<longrightarrow> dict_ok (connections hp')"
    by blast
  with h3 have a': "dict_ok (connections hp')" by blast
  note u = set_conn_assigns [of "''Pump 1''" single_stage "''pump1_to_valve1''" "''out1''"
      "''Valve 1''" "''in1''"]
  note b = u [THEN conjunct1, rule_format, OF h4]
  note v = set_conn_assigns [of "''Valve 1''" single_stage "''valve1_to_pump1''" "''out1''"
      "''Pump 1''" "''in1''"]
  note c = v [THEN conjunct2, THEN conjunct1, rule_format, OF conjI [OF h2 h4]]
  have d: "\<not> isl (set_conn ''cc1_to_valve1'' ''Compressor 1'' ''out1'' ''Valve 1'' ''in1'' single_stage)"
    and e: "dict_ok (connections (projr
         (set_conn ''cc1_to_valve1'' ''Compressor 1'' ''out1'' ''Valve 1'' ''in1'' single_stage)))"
    unfolding a using a' by simp_all
  from h1 h2 h3 h4 h5 b c d e show ?thesis by blast
qed

text \<open>
  \<^bold>\<open>C6\<close>, as the specification has it, fails.  In the single-stage heat pump the label
  \<^verbatim>\<open>cc1_to_valve1\<close> is taken, and the ports \<^verbatim>\<open>out1\<close> of the compressor and
  \<^verbatim>\<open>in1\<close> of the valve are both used by a connection.  A call of \<^verbatim>\<open>set_conn\<close>
  with that label and those two ports is not rejected: it overwrites the entry of the
  label, and the table keeps its length.
\<close>

theorem set_conn_overwrites_counterexample:
  "''cc1_to_valve1'' \<in> set (keys (connections single_stage))
   \<and> map_of (connections single_stage) ''cc1_to_valve1'' =
       Some \<lparr>source = \<lparr>comp_class = CycleCloser, label = ''Cycle Closer 1''\<rparr>, source_id = ''out1'',
             target = \<lparr>comp_class = Valve, label = ''Valve 1''\<rparr>, target_id = ''in1'',
             conn_label = ''cc1_to_valve1''\<rparr>
   \<and> map_of (connections single_stage) ''comp1_to_cond1'' =
       Some \<lparr>source = \<lparr>comp_class = Compressor, label = ''Compressor 1''\<rparr>, source_id = ''out1'',
             target = \<lparr>comp_class = Condenser, label = ''Condenser 1''\<rparr>, target_id = ''in1'',
             conn_label = ''comp1_to_cond1''\<rparr>
   \<and> \<not> isl (set_conn ''cc1_to_valve1'' ''Compressor 1'' ''out1'' ''Valve 1'' ''in1'' single_stage)
   \<and> map_of (connections (projr
         (set_conn ''cc1_to_valve1'' ''Compressor 1'' ''out1'' ''Valve 1'' ''in1'' single_stage)))
        ''cc1_to_valve1'' =
       Some \<lparr>source = \<lparr>comp_class = Compressor, label = ''Compressor 1''\<rparr>, source_id = ''out1'',
             target = \<lparr>comp_class = Valve, label = ''Valve 1''\<rparr>, target_id = ''in1'',
             conn_label = ''cc1_to_valve1''\<rparr>
   \<and> map_of (connections (projr
         (set_conn ''cc1_to_valve1'' ''Compressor 1'' ''out1'' ''Valve 1'' ''in1'' single_stage)))
        ''comp1_to_cond1'' = map_of (connections single_stage) ''comp1_to_cond1''
   \<and> length (connections (projr
         (set_conn ''cc1_to_valve1'' ''Compressor 1'' ''out1'' ''Valve 1'' ''in1'' single_stage)))
       = length (connections single_stage)"
  by (simp add: set_conn_def assign_def example_simps)

section \<open>Component keys and component labels\<close>

text \<open>
  \<^bold>\<open>C7\<close> fails for a cycle with an intercooler.  The constructor stores the
  compressor of stage 1 under the key \<^verbatim>\<open>Compressor 1-1\<close>, and the object carries the
  label \<^verbatim>\<open>Compressor 1_1\<close>.  Right after construction the connection
  \<^verbatim>\<open>comp1-1_to_intercooler1-1\<close> has a source whose label is no key of the component
  table.  After \<^verbatim>\<open>delete_component('Compressor 1-1')\<close> the compressor object is gone
  from the component table, and the connection table is what it was: it still holds the
  connections that start and end at the deleted object.
\<close>

theorem dangling_after_construction_and_delete:
  "Heatpump_init 1 [] [(1, \<lparr>amount = 1, ic_type = ''HeatExchanger''\<rparr>)] = Inr intercooled
   \<and> map_of (connections intercooled) ''comp1-1_to_intercooler1-1'' =
       Some \<lparr>source = \<lparr>comp_class = Compressor, label = ''Compressor 1_1''\<rparr>, source_id = ''out1'',
             target = \<lparr>comp_class = HeatExchanger, label = ''Intercooler 1-1''\<rparr>,
             target_id = ''in1'', conn_label = ''comp1-1_to_intercooler1-1''\<rparr>
   \<and> ''Compressor 1_1'' \<notin> set (keys (components intercooled))
   \<and> map_of (components intercooled) ''Compressor 1-1'' =
       Some \<lparr>comp_class = Compressor, label = ''Compressor 1_1''\<rparr>
   \<and> map_of (components (snd (delete_component ''Compressor 1-1'' intercooled)))
        ''Compressor 1-1'' = None
   \<and> \<lparr>comp_class = Compressor, label = ''Compressor 1_1''\<rparr> \<notin>
        snd ` set (components (snd (delete_component ''Compressor 1-1'' intercooled)))
   \<and> connections (snd (delete_component ''Compressor 1-1'' intercooled)) =
       connections intercooled"
proof -
  have d: "delete_conns ''Compressor 1-1'' (connections intercooled) (connections intercooled) =
             ([], connections intercooled)"
    by (simp add: example_simps)
  have k: "''Compressor 1-1'' \<in> set (keys (components intercooled))"
    by (simp add: example_simps)
  have 1: "map_of (connections intercooled) ''comp1-1_to_intercooler1-1'' =
       Some \<lparr>source = \<lparr>comp_class = Compressor, label = ''Compressor 1_1''\<rparr>, source_id = ''out1'',
             target = \<lparr>comp_class = HeatExchanger, label = ''Intercooler 1-1''\<rparr>,
             target_id = ''in1'', conn_label = ''comp1-1_to_intercooler1-1''\<rparr>"
    by (simp add: example_simps)
  have 2: "''Compressor 1_1'' \<notin> set (keys (components intercooled))"
    by (simp add: example_simps)
  have 3: "map_of (components intercooled) ''Compressor 1-1'' =
       Some \<lparr>comp_class = Compressor, label = ''Compressor 1_1''\<rparr>"
    by (simp add: example_simps)
  have 4: "components (snd (delete_component ''Compressor 1-1'' intercooled)) =
             AList.delete ''Compressor 1-1'' (components intercooled)"
    using k by (simp add: delete_component_def d)
  have 5: "map_of (AList.delete ''Compressor 1-1'' (components intercooled)) ''Compressor 1-1'' = None"
    by (simp add: delete_conv')
  have 6: "\<lparr>comp_class = Compressor, label = ''Compressor 1_1''\<rparr> \<notin>
        snd ` set (AList.delete ''Compressor 1-1'' (components intercooled))"
    by (simp add: example_simps)
  have 7: "connections (snd (delete_component ''Compressor 1-1'' intercooled)) =
       connections intercooled"
    using k by (simp add: delete_component_def d)
  show ?thesis
    using intercooled_built 1 2 3 5 6 7 unfolding 4 by blast
qed

text \<open>
  \<^bold>\<open>C10\<close>.  In every heat pump that the constructor returns, for every cycle \<open>c\<close>
  of \<open>1..nr_cycles\<close> with an intercooler entry and every stage \<open>i\<close> of
  \<open>1..amount + 1\<close>: the component table holds, under the key
  \<^verbatim>\<open>Compressor c-i\<close>, a compressor object whose label is \<^verbatim>\<open>Compressor c_i\<close>, and
  the two strings differ.  \<^verbatim>\<open>delete_component\<close> with that key removes this entry of
  the component table and nothing else, and leaves the connection table as it is: no
  connection is removed, since no endpoint object carries the hyphen form as its label.
\<close>

theorem compressor_key_label_mismatch:
  assumes "Heatpump_init nr ihx ic = Inr hp"
    and "1 \<le> c" "c \<le> nr" "map_of ic c = Some e" "1 \<le> i" "i \<le> amount e + 1"
  shows "map_of (components hp) (''Compressor '' @ str_int c @ ''-'' @ str_int i) =
           Some \<lparr>comp_class = Compressor, label = ''Compressor '' @ str_int c @ ''_'' @ str_int i\<rparr>
         \<and> ''Compressor '' @ str_int c @ ''-'' @ str_int i \<noteq>
             ''Compressor '' @ str_int c @ ''_'' @ str_int i
         \<and> components (snd (delete_component (''Compressor '' @ str_int c @ ''-'' @ str_int i) hp)) =
             filter (\<lambda>(k, v). k \<noteq> ''Compressor '' @ str_int c @ ''-'' @ str_int i) (components hp)
         \<and> map_of (components
               (snd (delete_component (''Compressor '' @ str_int c @ ''-'' @ str_int i) hp)))
             (''Compressor '' @ str_int c @ ''-'' @ str_int i) = None
         \<and> connections (snd (delete_component (''Compressor '' @ str_int c @ ''-'' @ str_int i) hp)) =
             connections hp"
proof -
  let ?key = "''Compressor '' @ str_int c @ ''-'' @ str_int i"
  let ?obj = "\<lparr>comp_class = Compressor, label = ''Compressor '' @ str_int c @ ''_'' @ str_int i\<rparr>"
  note cfg = Heatpump_init_result(1-3) [OF assms(1)]
  have "(?key, ?obj) \<in> set (intercooler_stage c (amount e) (ic_type e) i)"
    by (simp add: in_intercooler_stage)
  then have "(?key, ?obj) \<in> set (cycle_components hp c)"
    unfolding in_cycle_components using assms(4-6) cfg by blast
  then have mem: "(?key, ?obj) \<in> set (component_assignments hp)"
    unfolding in_component_assignments using assms(2,3) cfg by blast
  have "map_of (rev (component_assignments hp)) ?key = Some ?obj"
    using mem by (rule map_of_rev_unique) (rule assigned_hyphen_key_value)
  then have 1: "map_of (components hp) ?key = Some ?obj"
    by (simp add: built_components(3) [OF assms(1)])
  have 2: "?key \<noteq> ''Compressor '' @ str_int c @ ''_'' @ str_int i"
    by (simp add: is_digit_def)
  have key: "?key \<in> set (keys (components hp))"
    using 1 by (simp add: in_keys_iff)
  note ok = Heatpump_init_dict_ok(2) [OF assms(1)]
  note 3 = delete_component_result(1) [OF key ok]
  have 4: "map_of (filter (\<lambda>(k, v). k \<noteq> ?key) (components hp)) ?key = None"
    by (auto simp: map_of_eq_None_iff)
  have "\<not> incident ?key conn" if "(l, conn) \<in> set (connections hp)" for l conn
  proof -
    have "label v \<noteq> ?key" if "v \<in> snd ` set (components hp)" for v
    proof -
      from that obtain k where "(k, v) \<in> set (component_assignments hp)"
        using built_components(1) [OF assms(1)] by auto
      then show ?thesis by (rule assigned_label_not_hyphen)
    qed
    then show ?thesis
      using built_connection_endpoints [OF assms(1) that] unfolding incident_def by metis
  qed
  then have "filter (\<lambda>(l, c). \<not> incident ?key c) (connections hp) = connections hp"
    by (auto simp: filter_id_conv)
  then have 5: "connections (snd (delete_component ?key hp)) = connections hp"
    using delete_component_result(2) [OF key ok] by simp
  show ?thesis using 1 2 3 4 5 by simp
qed

text \<open>In the heat pump with one intercooler, two connections touch the compressor of
  stage 1; both are still in the table after the compressor is deleted.\<close>

theorem compressor_key_label_mismatch_witness:
  "Heatpump_init 1 [] [(1, \<lparr>amount = 1, ic_type = ''HeatExchanger''\<rparr>)] = Inr intercooled
   \<and> (1::int) \<le> 1
   \<and> map_of [(1::int, \<lparr>amount = 1, ic_type = ''HeatExchanger''\<rparr>)] 1 =
       Some \<lparr>amount = 1, ic_type = ''HeatExchanger''\<rparr>
   \<and> (1::int) \<le> amount \<lparr>amount = 1, ic_type = ''HeatExchanger''\<rparr> + 1
   \<and> map_of (components intercooled) ''Compressor 1-1'' =
       Some \<lparr>comp_class = Compressor, label = ''Compressor 1_1''\<rparr>
   \<and> connections (snd (delete_component ''Compressor 1-1'' intercooled)) = connections intercooled
   \<and> length [x \<leftarrow> connections intercooled. label (source (snd x)) = ''Compressor 1_1''
                  \<or> label (target (snd x)) = ''Compressor 1_1''] = 2"
proof -
  let ?e = "\<lparr>amount = 1, ic_type = ''HeatExchanger''\<rparr>"
  have h: "(1::int) \<le> 1" "map_of [(1::int, ?e)] 1 = Some ?e" "(1::int) \<le> amount ?e + 1"
    by simp_all
  have s: "''Compressor '' @ str_int 1 @ ''-'' @ str_int 1 = ''Compressor 1-1''"
    "''Compressor '' @ str_int 1 @ ''_'' @ str_int 1 = ''Compressor 1_1''"
    by (simp_all add: str_int_1)
  have n: "length [x \<leftarrow> connections intercooled. label (source (snd x)) = ''Compressor 1_1''
                  \<or> label (target (snd x)) = ''Compressor 1_1''] = 2"
    by (simp add: example_simps)
  note t = compressor_key_label_mismatch [OF intercooled_built h(1) h(1) h(2) h(1) h(3), unfolded s]
  from t intercooled_built h n show ?thesis by blast
qed

section \<open>No validation of the configuration\<close>

text \<open>
  \<^bold>\<open>C5\<close>, as the code has it.  The constructor validates nothing before it creates
  components.  Entries of \<^verbatim>\<open>int_heatex\<close> and of \<^verbatim>\<open>intercooler\<close> whose key lies outside
  \<open>1..nr_cycles\<close> are never read: two configurations that agree on the keys
  \<open>1..nr_cycles\<close> give the same outcome, with the same component table and the same
  connection table.  A build can fail only in \<^verbatim>\<open>generate_topology\<close>, with the
  \<^verbatim>\<open>KeyError\<close> of a key that \<^verbatim>\<open>generate_components\<close> did not create, and by then the
  component table holds the seven fixed components at least.
\<close>

theorem out_of_range_keys_ignored:
  "((\<forall>c. 1 \<le> c \<and> c \<le> nr \<longrightarrow> map_of ihx c = map_of ihx' c \<and> map_of ic c = map_of ic' c) \<longrightarrow>
      tables (Heatpump_init nr ihx ic) = tables (Heatpump_init nr ihx' ic'))
   \<and> (\<forall>e. Heatpump_init nr ihx ic = Inl e \<longrightarrow>
        (\<exists>k. e = KeyError k
           \<and> k \<notin> set (keys (components (generate_components
                 \<lparr>nr_cycles = nr, int_heatex = ihx, intercooler = ic,
                  components = [], connections = []\<rparr>))))
        \<and> 7 \<le> length (components (generate_components
                 \<lparr>nr_cycles = nr, int_heatex = ihx, intercooler = ic,
                  components = [], connections = []\<rparr>)))"
proof -
  let ?hp0 = "\<lparr>nr_cycles = nr, int_heatex = ihx, intercooler = ic, components = [], connections = []\<rparr>"
  have fail: "\<exists>k. e = KeyError k \<and> k \<notin> set (keys (components hp))"
    if "set_conns cs hp = Inl e" for cs hp e
    using that
  proof (induction cs arbitrary: hp)
    case Nil
    then show ?case by simp
  next
    case (Cons c cs)
    obtain lbl co outlet ci inlet where c: "c = (lbl, co, outlet, ci, inlet)"
      by (cases c)
    show ?case
    proof (cases "set_conn lbl co outlet ci inlet hp")
      case (Inl e')
      then show ?thesis using Cons.prems by (auto simp: c set_conn_eq split: if_splits)
    next
      case (Inr hp')
      then have "components hp' = components hp"
        by (auto simp: set_conn_eq split: if_splits)
      then show ?thesis using Cons.IH [of hp'] Cons.prems Inr by (simp add: c)
    qed
  qed
  have "\<exists>k. e = KeyError k \<and> k \<notin> set (keys (components (generate_components ?hp0)))"
    if "Heatpump_init nr ihx ic = Inl e" for e
    using fail [of "topology_conns ((generate_components ?hp0)\<lparr>connections := []\<rparr>)"
        "(generate_components ?hp0)\<lparr>connections := []\<rparr>" e] that
    by (simp add: Heatpump_init_def generate_topology_def)
  moreover have "7 \<le> length (components (generate_components ?hp0))"
    using generate_components_skeleton [of ?hp0] by (simp add: generate_components_def)
  ultimately show ?thesis using Heatpump_init_in_range [of nr ihx ihx' ic ic'] by blast
qed


text \<open>With one cycle, the entries keyed 2 and 0 change nothing; with no cycle the build
  fails on \<^verbatim>\<open>Valve 1\<close> after the seven fixed components were created.\<close>

theorem out_of_range_keys_ignored_witness:
  "tables (Heatpump_init 1 [(2, Single 1)] [(0, \<lparr>amount = 1, ic_type = ''HeatExchanger''\<rparr>)]) =
     tables (Heatpump_init 1 [] [])
   \<and> Heatpump_init 0 [] [] = Inl (KeyError ''Valve 1'')
   \<and> ''Valve 1'' \<notin> set (keys (components (generate_components
         \<lparr>nr_cycles = 0, int_heatex = [], intercooler = [], components = [], connections = []\<rparr>)))
   \<and> 7 \<le> length (components (generate_components
         \<lparr>nr_cycles = 0, int_heatex = [], intercooler = [], components = [], connections = []\<rparr>))"
proof -
  let ?e = "\<lparr>amount = 1, ic_type = ''HeatExchanger''\<rparr>"
  have h: "\<forall>c. 1 \<le> c \<and> c \<le> (1::int) \<longrightarrow>
             map_of [(2::int, Single 1)] c = map_of [] c \<and> map_of [(0::int, ?e)] c = map_of [] c"
    by auto
  have f: "Heatpump_init 0 [] [] = Inl (KeyError ''Valve 1'')"
    by code_simp
  note t = out_of_range_keys_ignored [of 1 "[(2, Single 1)]" "[]" "[(0, ?e)]" "[]"]
  note a = t [THEN conjunct1, THEN mp, OF h]
  note u = out_of_range_keys_ignored [of 0 "[]" "[]" "[]" "[]"]
  note b = u [THEN conjunct2, THEN spec, THEN mp, OF f]
  from a b f show ?thesis by auto
qed

text \<open>
  \<^bold>\<open>C5\<close>, as the specification has it, fails.  With one cycle, an \<^verbatim>\<open>int_heatex\<close>
  entry keyed 2 and an \<^verbatim>\<open>intercooler\<close> entry keyed 0 are out of range, and so is the
  target 5 of an \<^verbatim>\<open>int_heatex\<close> entry keyed 1.  Neither build fails: the first
  returns a heat pump with the 11 components of the plain single stage, the second one
  with 12 components.
\<close>

theorem out_of_range_not_rejected_counterexample:
  "\<not> isl (Heatpump_init 1 [(2, Single 1)] [(0, \<lparr>amount = 1, ic_type = ''HeatExchanger''\<rparr>)])
   \<and> length (components (projr
         (Heatpump_init 1 [(2, Single 1)] [(0, \<lparr>amount = 1, ic_type = ''HeatExchanger''\<rparr>)]))) = 11
   \<and> \<not> isl (Heatpump_init 1 [(1, Single 5)] [])
   \<and> length (components (projr (Heatpump_init 1 [(1, Single 5)] []))) = 12"
proof -
  let ?r = "Heatpump_init 1 [(2, Single 1)] [(0, \<lparr>amount = 1, ic_type = ''HeatExchanger''\<rparr>)]"
  have "tables ?r = tables (Heatpump_init 1 [] [])"
    by (rule Heatpump_init_in_range) auto
  then have t: "tables ?r = tables (Inr single_stage)"
    by (simp add: single_stage_built)
  have 1: "\<not> isl ?r" by (rule tables_Inr(1) [OF t])
  have 2: "length (components (projr ?r)) = 11"
    unfolding tables_Inr(2) [OF t] by (simp add: single_stage_components)
  obtain hp where r: "Heatpump_init 1 [(1, Single 5)] [] = Inr hp"
    and "length (keys (components hp)) = 12"
    using target_out_of_range_built by (cases "Heatpump_init 1 [(1, Single 5)] []") auto
  then have 3: "\<not> isl (Heatpump_init 1 [(1, Single 5)] [])"
    and 4: "length (components (projr (Heatpump_init 1 [(1, Single 5)] []))) = 12"
    by (simp_all add: keys_def)
  from 1 2 3 4 show ?thesis by blast
qed

section \<open>The hot-side return chain\<close>

text \<open>
  \<^bold>\<open>C1\<close> fails on the code, in two ways.

  With ten cycles and \<^verbatim>\<open>int_heatex = {1: [2, 10]}\<close>, the loop of cycle 1 connects the
  heat exchanger 1_2 to the unit of target 2 first, that unit to the unit of target
  10, and the unit of target 10 to the cycle closer: the keys are sorted as strings,
  and \<^verbatim>\<open>1_2\<close> comes before \<^verbatim>\<open>1_10\<close> in descending string order.

  With two cycles and \<^verbatim>\<open>int_heatex = {1: 2}\<close>, the hot chain of cycle 1 connects
  \<^verbatim>\<open>out1\<close> of heat exchanger 1_2 to \<^verbatim>\<open>in1\<close> of the internal heat exchanger under the
  label \<^verbatim>\<open>heatex1_2_to_int_heatex1_2\<close>; the cold chain of cycle 2 then assigns its own
  connection to the same label.  In the heat pump that the constructor returns, the
  label holds the cold-side connection, and no connection ends at \<^verbatim>\<open>in1\<close> of the
  internal heat exchanger.
\<close>

theorem hot_chain_failing_inputs:
  "hot_return_conns (generate_components
      \<lparr>nr_cycles = 10, int_heatex = [(1, Multi [2, 10])], intercooler = [],
       components = [], connections = []\<rparr>) 1 =
     [(''heatex1_2_to_int_heatex1_2'', ''Heat Exchanger 1_2'', ''out1'',
       ''Internal Heat Exchanger 1_2'', ''in1''),
      (''int_heatex1_2_to_int_heatex1_10'', ''Internal Heat Exchanger 1_2'', ''out1'',
       ''Internal Heat Exchanger 1_10'', ''in1''),
      (''int_heatex1_10_to_cc1'', ''Internal Heat Exchanger 1_10'', ''out1'',
       ''Cycle Closer 1'', ''in1'')]
   \<and> case_sum (\<lambda>e. None)
       (\<lambda>hp. Some (hot_return_conns hp 1,
          map_of (connections hp) ''heatex1_2_to_int_heatex1_2'',
          [x \<leftarrow> connections hp. label (target (snd x)) = ''Internal Heat Exchanger 1_2''
                                   \<and> target_id (snd x) = ''in1'']))
       (Heatpump_init 2 [(1, Single 2)] []) =
     Some ([(''heatex1_2_to_int_heatex1_2'', ''Heat Exchanger 1_2'', ''out1'',
             ''Internal Heat Exchanger 1_2'', ''in1''),
            (''int_heatex1_2_to_cc1'', ''Internal Heat Exchanger 1_2'', ''out1'',
             ''Cycle Closer 1'', ''in1'')],
           Some (snd (link ''heatex1_2_to_int_heatex1_2''
              (obj HeatExchanger ''Heat Exchanger 1_2'') ''out2''
              (obj HeatExchanger ''Internal Heat Exchanger 1_2'') ''in2'')),
           [])"
  by code_simp

section \<open>The cold-side chain\<close>

text \<open>
  The calls of one pass.  For every configuration and every cycle \<open>c\<close>, the
  \<^verbatim>\<open>set_conn\<close> calls of the pass that start at a second outlet (\<^verbatim>\<open>out2\<close>) are, in
  program order: from \<^verbatim>\<open>Evaporator 1\<close> when \<open>c = 1\<close> and from heat exchanger
  \<open>(c-1, c)\<close> otherwise, through the internal heat exchangers \<open>(s, c)\<close> of the source
  cycles \<open>s\<close> of \<open>1..nr_cycles\<close> that have \<open>c\<close> among their targets, in ascending
  order of \<open>s\<close>, to \<^verbatim>\<open>in1\<close> of the first compressor of the cycle.  This is a statement
  about the arguments of the calls, not about the table that the calls fill.
\<close>

lemma cold_side_chain:
  "map endpoints [a \<leftarrow> cycle_conns hp c. outlet_of a = ''out2''] =
     cold_links
       (if c = 1 then ''Evaporator 1''
        else ''Heat Exchanger '' @ str_int (c - 1) @ ''_'' @ str_int c)
       (map (\<lambda>s. ''Internal Heat Exchanger '' @ str_int s @ ''_'' @ str_int c)
          [s \<leftarrow> [1..nr_cycles hp]. targets_cycle hp s c])
       (if map_of (intercooler hp) c = None then ''Compressor '' @ str_int c
        else ''Compressor '' @ str_int c @ ''-1'')"
proof -
  let ?xs = "[s \<leftarrow> [1..nr_cycles hp]. targets_cycle hp s c]"
  let ?chain = "cold_chain c None ?xs"
  have coll: "collect_int_heatex hp c [1..nr_cycles hp] [] = ?xs"
    by (simp add: collect_int_heatex_filter)
  have cold: "[a \<leftarrow> fst ?chain. outlet_of a = ''out2''] = fst ?chain"
    by (auto simp: filter_id_conv dest: cold_chain_outlets)
  have "[a \<leftarrow> cycle_conns hp c. outlet_of a = ''out2''] =
          fst ?chain @ [a \<leftarrow> compression_conns hp c (snd ?chain). outlet_of a = ''out2'']"
    unfolding cycle_conns_def coll
    by (simp add: split_beta Let_def filter_out2_hot cold) (simp add: outlet_of_def)
  then have "map endpoints [a \<leftarrow> cycle_conns hp c. outlet_of a = ''out2''] =
          map endpoints (fst ?chain)
            @ [(cold_upstream c (snd ?chain), ''out2'', first_compressor hp c, ''in1'')]"
    by (simp add: compression_conns_out2)
  also have "\<dots> = cold_links (cold_upstream c None)
      (map (\<lambda>s. ''Internal Heat Exchanger '' @ str_int s @ ''_'' @ str_int c) ?xs)
      (first_compressor hp c)"
    by (rule cold_chain_links) simp
  finally show ?thesis
    by (simp add: cold_upstream_def falsy_def first_compressor_def)
qed

text \<open>
  \<^bold>\<open>C2\<close> fails on the table that the constructor returns.  With ten cycles and
  \<^verbatim>\<open>int_heatex = {1: 1, 10: 1}\<close>, the pass of cycle 1 makes the three cold-side calls
  of the chain, the second of them from \<^verbatim>\<open>out2\<close> of unit 1_1 to \<^verbatim>\<open>in2\<close> of unit
  10_1 under the label \<^verbatim>\<open>int_heatex1_1_to_int_heatex10_1\<close>.  The hot-side loop of the
  same pass selects unit 10_1 as well, since its key contains
  \<^verbatim>\<open>Internal Heat Exchanger 1\<close>, and connects \<^verbatim>\<open>out1\<close> of unit 1_1 to \<^verbatim>\<open>in1\<close> of
  unit 10_1 under the same label.  The build makes 62 calls and returns 61
  connections; the label holds the hot-side connection, and no connection of the table
  leaves unit 1_1 at \<^verbatim>\<open>out2\<close>.
\<close>

theorem cold_chain_failing_input:
  "case_sum (\<lambda>e. None)
       (\<lambda>hp. Some (length (topology_conns hp), length (connections hp),
          map endpoints [a \<leftarrow> cycle_conns hp 1. outlet_of a = ''out2''],
          map_of (connections hp) ''int_heatex1_1_to_int_heatex10_1'',
          [x \<leftarrow> connections hp. label (source (snd x)) = ''Internal Heat Exchanger 1_1''
                                   \<and> source_id (snd x) = ''out2'']))
       (Heatpump_init 10 [(1, Single 1), (10, Single 1)] []) =
     Some (62, 61,
           [(''Evaporator 1'', ''out2'', ''Internal Heat Exchanger 1_1'', ''in2''),
            (''Internal Heat Exchanger 1_1'', ''out2'', ''Internal Heat Exchanger 10_1'', ''in2''),
            (''Internal Heat Exchanger 10_1'', ''out2'', ''Compressor 1'', ''in1'')],
           Some (snd (link ''int_heatex1_1_to_int_heatex10_1''
              (obj HeatExchanger ''Internal Heat Exchanger 1_1'') ''out1''
              (obj HeatExchanger ''Internal Heat Exchanger 10_1'') ''in1'')),
           [])"
  by code_simp

end
